theory Spec2Isabelle
  imports Main "HOL-Library.Finite_Map" "HOL-Library.Char_ord" "HOL-Library.List_Lexorder"
begin

section \<open>Values, errors and events\<close>

text \<open>
  The observers of \<^verbatim>\<open>pkg/operator/configobservation/auth\<close> work on loosely typed
  configuration trees (Go \<^verbatim>\<open>map[string]interface{}\<close>). A value of \<^verbatim>\<open>interface{}\<close>
  is one of the JSON shapes below; a Go map is a finite map, so two trees with the same
  entries are equal whatever the order they were built in.
\<close>

datatype jv =
    JNull
  | JBool bool
  | JNum int
  | JStr string
  | JSlice "jv list"
  | JMap "(string, jv) fmap"

text \<open>A configuration tree; \<open>None\<close> is the Go \<^verbatim>\<open>nil\<close> map.\<close>

type_synonym config = "(string, jv) fmap option"

text \<open>
  Errors are values. \<open>StatusNotFound\<close> is the API error on which
  \<^verbatim>\<open>errors.IsNotFound\<close> answers true, \<open>StatusError\<close> any other error of a
  collaborator, \<open>Errorf\<close> an error made by \<^verbatim>\<open>fmt.Errorf\<close> (format and arguments),
  \<open>AccessorError\<close> the error of an accessor of package \<^verbatim>\<open>unstructured\<close>
  (the path read and the type expected there).
\<close>

datatype error =
    StatusNotFound string
  | StatusError string
  | Errorf string "arg list"
  | AccessorError "string list" string
and arg = S string | D nat | V error

fun IsNotFound :: "error \<Rightarrow> bool" where
  "IsNotFound (StatusNotFound _) = True"
| "IsNotFound _ = False"

text \<open>A call \<^verbatim>\<open>recorder.Eventf(reason, messageFmt, args...)\<close>.\<close>

datatype event = Eventf string string "arg list"

section \<open>Accessors of the configuration tree\<close>

text \<open>
  Modelled from the spec: \<^verbatim>\<open>unstructured.NestedFieldNoCopy\<close> (vendored
  k8s.io/apimachinery, not among the source files), the get-by-path of the tree.
  It walks the fields from the root; a missing key or a nil value on the way is
  "not found" without error, a value on the way that is not a map is an error.
  The result is Go's triple (value, found, error).
\<close>

fun NestedFieldNoCopy_from :: "jv \<Rightarrow> string list \<Rightarrow> string list \<Rightarrow> jv \<times> bool \<times> error option" where
  "NestedFieldNoCopy_from val seen [] = (val, True, None)"
| "NestedFieldNoCopy_from JNull seen (field # fields) = (JNull, False, None)"
| "NestedFieldNoCopy_from (JMap m) seen (field # fields) =
     (case fmlookup m field of
        None \<Rightarrow> (JNull, False, None)
      | Some v \<Rightarrow> NestedFieldNoCopy_from v (seen @ [field]) fields)"
| "NestedFieldNoCopy_from val seen (field # fields) =
     (JNull, False, Some (AccessorError (seen @ [field]) ''map[string]interface{}''))"

definition the_map :: "config \<Rightarrow> (string, jv) fmap" where
  "the_map obj = (case obj of None \<Rightarrow> fmempty | Some m \<Rightarrow> m)"

definition NestedFieldNoCopy :: "config \<Rightarrow> string list \<Rightarrow> jv \<times> bool \<times> error option" where
  "NestedFieldNoCopy obj fields = NestedFieldNoCopy_from (JMap (the_map obj)) [] fields"

text \<open>
  Modelled from the spec: \<^verbatim>\<open>unstructured.NestedSlice\<close> (vendored, not among the
  source files): the sequence at a path. Not found gives the nil sequence and
  found = false; a value that is not a sequence is an error. A nil and an empty
  sequence are both \<open>[]\<close>.
\<close>

definition NestedSlice :: "config \<Rightarrow> string list \<Rightarrow> jv list \<times> bool \<times> error option" where
  "NestedSlice obj fields =
     (case NestedFieldNoCopy obj fields of
        (val, found, Some err) \<Rightarrow> ([], found, Some err)
      | (val, False, None) \<Rightarrow> ([], False, None)
      | (JSlice xs, True, None) \<Rightarrow> (xs, True, None)
      | (val, True, None) \<Rightarrow> ([], False, Some (AccessorError fields ''[]interface{}'')))"

text \<open>
  Modelled from the spec: \<^verbatim>\<open>unstructured.NestedStringSlice\<close> (vendored, not among
  the source files): as \<open>NestedSlice\<close>, and every element must be a string.
\<close>

fun strings_of :: "jv list \<Rightarrow> string list option" where
  "strings_of [] = Some []"
| "strings_of (JStr s # vs) = (case strings_of vs of None \<Rightarrow> None | Some ss \<Rightarrow> Some (s # ss))"
| "strings_of (v # vs) = None"

definition NestedStringSlice :: "config \<Rightarrow> string list \<Rightarrow> string list \<times> bool \<times> error option" where
  "NestedStringSlice obj fields =
     (case NestedFieldNoCopy obj fields of
        (val, found, Some err) \<Rightarrow> ([], found, Some err)
      | (val, False, None) \<Rightarrow> ([], False, None)
      | (JSlice xs, True, None) \<Rightarrow>
          (case strings_of xs of
             Some ss \<Rightarrow> (ss, True, None)
           | None \<Rightarrow> ([], False, Some (AccessorError fields ''string'')))
      | (val, True, None) \<Rightarrow> ([], False, Some (AccessorError fields ''[]interface{}'')))"

text \<open>
  Modelled from the spec: \<^verbatim>\<open>unstructured.SetNestedField\<close> (vendored, not among the
  source files), the set-by-path of the tree. Missing maps on the way are created; a
  value on the way that is not a map is an error and leaves the tree as it was. The Go
  function updates the map in place and returns the error; the model returns the
  updated map with it. Without any field the Go function panics; no caller gives an
  empty path, and the model answers with an error there.
\<close>

fun SetNestedField :: "(string, jv) fmap \<Rightarrow> jv \<Rightarrow> string list \<Rightarrow> (string, jv) fmap \<times> error option" where
  "SetNestedField m val [] = (m, Some (Errorf ''no field given'' []))"
| "SetNestedField m val [field] = (fmupd field val m, None)"
| "SetNestedField m val (field # fields) =
     (case fmlookup m field of
        None \<Rightarrow>
          (case SetNestedField fmempty val fields of
             (m', err) \<Rightarrow> (fmupd field (JMap m') m, err))
      | Some (JMap valMap) \<Rightarrow>
          (case SetNestedField valMap val fields of
             (m', None) \<Rightarrow> (fmupd field (JMap m') m, None)
           | (m', Some err) \<Rightarrow> (m, Some err))
      | Some v \<Rightarrow>
          (m, Some (Errorf ''value cannot be set because %v is not a map[string]interface{}'' [S field])))"

text \<open>
  Modelled from the spec: \<^verbatim>\<open>unstructured.SetNestedSlice\<close> and
  \<^verbatim>\<open>unstructured.SetNestedStringSlice\<close> (vendored, not among the source files):
  \<open>SetNestedField\<close> with a sequence for the value.
\<close>

definition SetNestedSlice :: "(string, jv) fmap \<Rightarrow> jv list \<Rightarrow> string list \<Rightarrow> (string, jv) fmap \<times> error option" where
  "SetNestedSlice obj val fields = SetNestedField obj (JSlice val) fields"

definition SetNestedStringSlice :: "(string, jv) fmap \<Rightarrow> string list \<Rightarrow> string list \<Rightarrow> (string, jv) fmap \<times> error option" where
  "SetNestedStringSlice obj val fields = SetNestedField obj (JSlice (map JStr val)) fields"

text \<open>
  Modelled from the spec: \<^verbatim>\<open>equality.Semantic.DeepEqual\<close> (vendored, not among the
  source files): deep value equality, order-sensitive for sequences, where a nil and
  an empty sequence or map are equal. The model's values already identify nil and
  empty sequences and maps, so it is equality.
\<close>

definition Semantic_DeepEqual :: "'a \<Rightarrow> 'a \<Rightarrow> bool" where
  "Semantic_DeepEqual a b = (a = b)"

section \<open>The cluster resources read by the observers\<close>

text \<open>
  The parts of \<^verbatim>\<open>configv1.Authentication\<close> the observers read; the nested structs
  of the provider are flattened, a field keeps its path as its name. A nil pointer is
  \<open>None\<close>.
\<close>

record TokenRequiredClaim =
  Claim :: string
  RequiredValue :: string

record TokenClaimValidationRule =
  Rule_Type :: string
  RequiredClaim :: "TokenRequiredClaim option"

record OIDCClientConfig =
  ComponentName :: string
  ComponentNamespace :: string
  ClientID :: string

record OIDCProvider =
  Issuer_URL :: string
  Issuer_CertificateAuthority_Name :: string
  OIDCClients :: "OIDCClientConfig list"
  ClaimMappings_Username_Claim :: string
  ClaimMappings_Username_PrefixPolicy :: string
  ClaimMappings_Username_Prefix :: "string option"
  ClaimMappings_Groups_Claim :: string
  ClaimMappings_Groups_Prefix :: string
  ClaimValidationRules :: "TokenClaimValidationRule list"

record Authentication =
  Spec_Type :: string
  Spec_OIDCProviders :: "OIDCProvider list"

record ConfigMap =
  cm_Name :: string
  cm_Namespace :: string
  Data :: "(string, string) fmap"

record ResourceLocation =
  Namespace :: string
  Name :: string

text \<open>
  Modelled from the spec: the constants of the vendored API packages (not among the
  source files) that the observers compare with: the authentication types, the
  username prefix policies, the claim validation rule type, the feature gate and the
  operator's target namespace.
\<close>

definition AuthenticationTypeIntegratedOAuth :: string where
  "AuthenticationTypeIntegratedOAuth = ''IntegratedOAuth''"

definition AuthenticationTypeNone :: string where
  "AuthenticationTypeNone = ''None''"

definition AuthenticationTypeOIDC :: string where
  "AuthenticationTypeOIDC = ''OIDC''"

definition NoOpinion :: string where
  "NoOpinion = ''''"

definition NoPrefix :: string where
  "NoPrefix = ''NoPrefix''"

definition Prefix :: string where
  "Prefix = ''Prefix''"

definition TokenValidationRuleTypeRequiredClaim :: string where
  "TokenValidationRuleTypeRequiredClaim = ''RequiredClaim''"

definition FeatureGateExternalOIDC :: string where
  "FeatureGateExternalOIDC = ''ExternalOIDC''"

definition TargetNamespace :: string where
  "TargetNamespace = ''openshift-kube-apiserver''"

section \<open>The collaborators\<close>

text \<open>
  The state lookup and the mirror of one pass: the lister of the authentication
  resource, the lister of config maps (namespace, name) and the resource syncer, whose
  \<open>SyncConfigMap target source\<close> answers with an error or none. A URL parser
  (\<^verbatim>\<open>net/url.Parse\<close>) is a parameter of the observer; of the parsed URL the code reads
  the scheme only.
\<close>

record Listers =
  AuthConfigLister_Get :: "string \<Rightarrow> error + Authentication"
  ConfigMapLister_Get :: "string \<Rightarrow> string \<Rightarrow> error + ConfigMap"
  SyncConfigMap :: "ResourceLocation \<Rightarrow> ResourceLocation \<Rightarrow> error option"

record FeatureGateAccess =
  AreInitialFeatureGatesObserved :: bool
  CurrentFeatureGates :: "error + (string \<Rightarrow> bool)"

record URL =
  Scheme :: string

text \<open>
  What one pass of an observer gives: the tree and the errors it returns, the events
  it recorded and the mirror requests it issued (target, source), each in the order
  of the calls.
\<close>

record observation =
  ret :: config
  ret_errs :: "error list"
  recorded :: "event list"
  synced :: "(ResourceLocation \<times> ResourceLocation) list"

section \<open>external\_oidc.go\<close>

definition eventComponentName :: string where
  "eventComponentName = ''ObserveExternalOIDC''"

definition componentName :: string where
  "componentName = ''kube-apiserver''"

definition caBundleSourceNamespace :: string where
  "caBundleSourceNamespace = ''openshift-config''"

definition TargetOIDCCAConfigMapName :: string where
  "TargetOIDCCAConfigMapName = ''oidc-serving-ca-bundle''"

definition staticCABundleFilePath :: string where
  "staticCABundleFilePath =
     ''/etc/kubernetes/static-pod-resources/configmaps/oidc-serving-ca-bundle/ca-bundle.crt''"

definition apiServerArgumentsPath :: string where
  "apiServerArgumentsPath = ''apiServerArguments''"

definition oidcIssuerURLPath :: string where
  "oidcIssuerURLPath = ''oidc-issuer-url''"

definition oidcClientIDPath :: string where
  "oidcClientIDPath = ''oidc-client-id''"

definition oidcUsernameClaimPath :: string where
  "oidcUsernameClaimPath = ''oidc-username-claim''"

definition oidcUsernamePrefixPath :: string where
  "oidcUsernamePrefixPath = ''oidc-username-prefix''"

definition oidcGroupsClaimPath :: string where
  "oidcGroupsClaimPath = ''oidc-groups-claim''"

definition oidcGroupsPrefixPath :: string where
  "oidcGroupsPrefixPath = ''oidc-groups-prefix''"

definition oidcRequiredClaimPath :: string where
  "oidcRequiredClaimPath = ''oidc-required-claim''"

definition oidcCAFilePath :: string where
  "oidcCAFilePath = ''oidc-ca-file''"

text \<open>
  \<^verbatim>\<open>cmNeedsSync\<close>: whether the destination config map must be synced from the
  source. Go's pair (bool, error).
\<close>

definition cmNeedsSync :: "Listers \<Rightarrow> string \<Rightarrow> string \<Rightarrow> string \<Rightarrow> string \<Rightarrow> string \<Rightarrow> bool \<times> error option" where
  "cmNeedsSync listers destinationCMName destinationCMNamespace sourceCMName sourceCMNamespace key =
     (case ConfigMapLister_Get listers destinationCMNamespace destinationCMName of
        Inl err \<Rightarrow> if IsNotFound err then (True, None) else (False, Some err)
      | Inr existingCM \<Rightarrow>
          if length sourceCMName = 0 then (True, None)
          else
            (case ConfigMapLister_Get listers sourceCMNamespace sourceCMName of
               Inl err \<Rightarrow> (False, Some err)
             | Inr sourceCM \<Rightarrow>
                 if length key = 0
                 then (\<not> Semantic_DeepEqual (Data existingCM) (Data sourceCM), None)
                 else
                   (let found1 = (fmlookup (Data existingCM) key \<noteq> None);
                        val1 = (case fmlookup (Data existingCM) key of None \<Rightarrow> [] | Some v \<Rightarrow> v);
                        found2 = (fmlookup (Data sourceCM) key \<noteq> None);
                        val2 = (case fmlookup (Data sourceCM) key of None \<Rightarrow> [] | Some v \<Rightarrow> v)
                    in if found1 \<and> found2 then (val1 \<noteq> val2, None)
                       else if \<not> found2 then
                         (if \<not> found1
                          then (False, Some (Errorf ''key '%s' not found in either configmap'' [S key]))
                          else (False, Some (Errorf ''key '%s' not found in source configmap'' [S key])))
                       else (True, None))))"

text \<open>
  \<^verbatim>\<open>syncCABundleIfNeeded\<close>: Go's pair (bool, error), with the mirror requests the
  call issued. An error of \<open>cmNeedsSync\<close> is logged ("will sync anyway") and the
  sync is asked for.
\<close>

definition syncCABundleIfNeeded :: "Listers \<Rightarrow> OIDCProvider \<Rightarrow> bool \<times> error option \<times> (ResourceLocation \<times> ResourceLocation) list" where
  "syncCABundleIfNeeded listers provider =
     (let (caBundleSyncNeeded, err) =
            cmNeedsSync listers TargetOIDCCAConfigMapName TargetNamespace
              (Issuer_CertificateAuthority_Name provider) caBundleSourceNamespace ''ca-bundle.crt'';
          caBundleSyncNeeded = (if err \<noteq> None then True else caBundleSyncNeeded)
      in if \<not> caBundleSyncNeeded then (False, None, [])
         else
           (let sourceName = Issuer_CertificateAuthority_Name provider;
                sourceNamespace = (if length sourceName = 0 then [] else caBundleSourceNamespace);
                target = \<lparr>Namespace = TargetNamespace, Name = TargetOIDCCAConfigMapName\<rparr>;
                source = \<lparr>Namespace = sourceNamespace, Name = sourceName\<rparr>
            in case SyncConfigMap listers target source of
                 Some err \<Rightarrow> (False, Some err, [(target, source)])
               | None \<Rightarrow> (True, None, [(target, source)])))"

text \<open>
  \<^verbatim>\<open>getOIDCClientForComponent\<close>: the first client config of the first provider with
  the given component name and namespace, or nil. The Go code indexes provider 0 and
  its only caller has checked that there is exactly one provider; without a provider
  there is no client config.
\<close>

definition getOIDCClientForComponent :: "Authentication \<Rightarrow> string \<Rightarrow> string \<Rightarrow> OIDCClientConfig option" where
  "getOIDCClientForComponent auth name namespace =
     (case Spec_OIDCProviders auth of
        [] \<Rightarrow> None
      | provider # _ \<Rightarrow>
          find (\<lambda>clientConfig. ComponentName clientConfig = name
                  \<and> ComponentNamespace clientConfig = namespace)
            (OIDCClients provider))"

text \<open>The paths that both loops of the file go through, in their order.\<close>

definition oidcPaths :: "string list" where
  "oidcPaths =
     [oidcIssuerURLPath, oidcClientIDPath, oidcUsernameClaimPath, oidcUsernamePrefixPath,
      oidcGroupsClaimPath, oidcGroupsPrefixPath, oidcRequiredClaimPath, oidcCAFilePath]"

fun oidcConfigExists_loop :: "config \<Rightarrow> string list \<Rightarrow> bool \<times> error option" where
  "oidcConfigExists_loop cfg [] = (False, None)"
| "oidcConfigExists_loop cfg (path # paths) =
     (case NestedSlice cfg [apiServerArgumentsPath, path] of
        (_, found, Some err) \<Rightarrow> (False, Some err)
      | (_, True, None) \<Rightarrow> (True, None)
      | (_, False, None) \<Rightarrow> oidcConfigExists_loop cfg paths)"

definition oidcConfigExists :: "config \<Rightarrow> bool \<times> error option" where
  "oidcConfigExists cfg = oidcConfigExists_loop cfg oidcPaths"

text \<open>
  The loop of \<^verbatim>\<open>observeExternalOIDC\<close> over the claim validation rules, from index
  \<open>i\<close>: the entries of the required-claim sequence (an entry of a rule with errors
  stays nil) and the errors.
\<close>

fun claimValidationRules_loop :: "nat \<Rightarrow> TokenClaimValidationRule list \<Rightarrow> jv list \<times> error list" where
  "claimValidationRules_loop i [] = ([], [])"
| "claimValidationRules_loop i (rule # rules) =
     (let hasErrors = False;
          errs = [];
          (hasErrors, errs) =
            (if Rule_Type rule \<noteq> TokenValidationRuleTypeRequiredClaim
             then (True, errs @ [Errorf ''invalid claim validation rule type: %s'' [S (Rule_Type rule)]])
             else (hasErrors, errs));
          (hasErrors, errs) =
            (if RequiredClaim rule = None
             then (True, errs @ [Errorf ''empty validation rule at index %d'' [D i]])
             else (hasErrors, errs));
          entry =
            (case RequiredClaim rule of
               Some rc \<Rightarrow> if \<not> hasErrors then JStr (Claim rc @ ''='' @ RequiredValue rc) else JNull
             | None \<Rightarrow> JNull);
          (entries, errs') = claimValidationRules_loop (Suc i) rules
      in (entry # entries, errs @ errs'))"

text \<open>
  The first part of \<^verbatim>\<open>observeExternalOIDC\<close> (after the provider and the client
  config are found, up to the check of the errors): the value of every OIDC argument
  the provider configures, and the errors of the fields, accumulated.
\<close>

definition observeExternalOIDC_values :: "(string \<Rightarrow> error + URL) \<Rightarrow> OIDCProvider \<Rightarrow> OIDCClientConfig \<Rightarrow> (string, jv list) fmap \<times> error list" where
  "observeExternalOIDC_values url_Parse provider clientConfig =
     (let errs = [];
          oidcConfigValues = fmempty;
          (oidcConfigValues, errs) =
            (case url_Parse (Issuer_URL provider) of
               Inl err \<Rightarrow> (oidcConfigValues, errs @ [err])
             | Inr issuerURL \<Rightarrow>
                 if Scheme issuerURL \<noteq> ''https''
                 then (oidcConfigValues, errs @ [Errorf ''https is required for provider URL'' []])
                 else (fmupd oidcIssuerURLPath [JStr (Issuer_URL provider)] oidcConfigValues, errs));
          (oidcConfigValues, errs) =
            (if length (ClientID clientConfig) > 0
             then (fmupd oidcClientIDPath [JStr (ClientID clientConfig)] oidcConfigValues, errs)
             else (oidcConfigValues, errs @ [Errorf ''OIDC client ID not set'' []]));
          oidcConfigValues =
            (if length (ClaimMappings_Username_Claim provider) > 0
             then fmupd oidcUsernameClaimPath [JStr (ClaimMappings_Username_Claim provider)] oidcConfigValues
             else oidcConfigValues);
          oidcConfigValues =
            (if length (ClaimMappings_Groups_Claim provider) > 0
             then fmupd oidcGroupsClaimPath [JStr (ClaimMappings_Groups_Claim provider)] oidcConfigValues
             else oidcConfigValues);
          oidcConfigValues =
            (if length (ClaimMappings_Groups_Prefix provider) > 0
             then fmupd oidcGroupsPrefixPath [JStr (ClaimMappings_Groups_Prefix provider)] oidcConfigValues
             else oidcConfigValues);
          (oidcConfigValues, errs) =
            (if ClaimMappings_Username_PrefixPolicy provider = NoOpinion
             then (oidcConfigValues, errs)
             else if ClaimMappings_Username_PrefixPolicy provider = NoPrefix
             then (fmupd oidcUsernamePrefixPath [JStr ''-''] oidcConfigValues, errs)
             else if ClaimMappings_Username_PrefixPolicy provider = Prefix
             then
               (case ClaimMappings_Username_Prefix provider of
                  None \<Rightarrow> (oidcConfigValues, errs @ [Errorf ''nil username prefix while policy expects one'' []])
                | Some prefixString \<Rightarrow> (fmupd oidcUsernamePrefixPath [JStr prefixString] oidcConfigValues, errs))
             else (oidcConfigValues, errs));
          (oidcConfigValues, errs) =
            (if length (ClaimValidationRules provider) > 0
             then
               (case claimValidationRules_loop 0 (ClaimValidationRules provider) of
                  (entries, errs') \<Rightarrow> (fmupd oidcRequiredClaimPath entries oidcConfigValues, errs @ errs'))
             else (oidcConfigValues, errs));
          oidcConfigValues =
            (if length (Issuer_CertificateAuthority_Name provider) > 0
             then fmupd oidcCAFilePath [JStr staticCABundleFilePath] oidcConfigValues
             else oidcConfigValues)
      in (oidcConfigValues, errs))"

text \<open>
  The state of the merge/diff loop of \<^verbatim>\<open>observeExternalOIDC\<close>, and the loop over
  the paths: the change flag, the fragment built so far, the errors and the events.
\<close>

record loop_state =
  st_configChanged :: bool
  st_observedConfig :: "(string, jv) fmap"
  st_errs :: "error list"
  st_events :: "event list"

fun observeExternalOIDC_loop :: "config \<Rightarrow> (string, jv list) fmap \<Rightarrow> string list \<Rightarrow> loop_state \<Rightarrow> loop_state" where
  "observeExternalOIDC_loop existingConfig oidcConfigValues [] st = st"
| "observeExternalOIDC_loop existingConfig oidcConfigValues (path # paths) st =
     (let (newVal, newValConfigured) =
            (case fmlookup oidcConfigValues path of None \<Rightarrow> ([], False) | Some v \<Rightarrow> (v, True));
          st =
            (if \<not> st_configChanged st then
               (case NestedSlice existingConfig [apiServerArgumentsPath, path] of
                  (existingValue, _, Some err) \<Rightarrow> st\<lparr>st_errs := st_errs st @ [err]\<rparr>
                | (existingValue, _, None) \<Rightarrow>
                    if \<not> Semantic_DeepEqual existingValue newVal
                    then st\<lparr>st_configChanged := True\<rparr> else st)
             else st)
      in if \<not> newValConfigured then observeExternalOIDC_loop existingConfig oidcConfigValues paths st
         else
           (case SetNestedSlice (st_observedConfig st) newVal [apiServerArgumentsPath, path] of
              (m, Some err) \<Rightarrow>
                observeExternalOIDC_loop existingConfig oidcConfigValues paths
                  (st\<lparr>st_observedConfig := m,
                      st_events := st_events st @
                        [Eventf eventComponentName ''Failed setting '%s': %v'' [S path, V err]],
                      st_errs := st_errs st @ [err]\<rparr>)
            | (m, None) \<Rightarrow>
                observeExternalOIDC_loop existingConfig oidcConfigValues paths
                  (st\<lparr>st_observedConfig := m\<rparr>)))"

definition observeExternalOIDC :: "(string \<Rightarrow> error + URL) \<Rightarrow> Authentication \<Rightarrow> Listers \<Rightarrow> config \<Rightarrow> observation" where
  "observeExternalOIDC url_Parse auth listers existingConfig =
     (if length (Spec_OIDCProviders auth) \<noteq> 1 then
        \<lparr>ret = existingConfig,
         ret_errs = [Errorf ''exactly one OIDC provider must be configured in authentication.config/cluster resource'' []],
         recorded = [], synced = []\<rparr>
      else
        (let provider = Spec_OIDCProviders auth ! 0 in
         case getOIDCClientForComponent auth componentName TargetNamespace of
           None \<Rightarrow>
             \<lparr>ret = existingConfig,
              ret_errs = [Errorf ''no OIDC client config found for component %s/%s'' [S componentName, S TargetNamespace]],
              recorded = [], synced = []\<rparr>
         | Some clientConfig \<Rightarrow>
             (case observeExternalOIDC_values url_Parse provider clientConfig of
                (oidcConfigValues, errs) \<Rightarrow>
                  if length errs > 0 then
                    \<lparr>ret = existingConfig, ret_errs = errs, recorded = [], synced = []\<rparr>
                  else
                    (case syncCABundleIfNeeded listers provider of
                       (caBundleSynced, Some err, requests) \<Rightarrow>
                         \<lparr>ret = existingConfig, ret_errs = errs @ [err], recorded = [], synced = requests\<rparr>
                     | (caBundleSynced, None, requests) \<Rightarrow>
                         (let st = observeExternalOIDC_loop existingConfig oidcConfigValues oidcPaths
                                     \<lparr>st_configChanged = False, st_observedConfig = fmempty,
                                      st_errs = errs, st_events = []\<rparr>
                          in \<lparr>ret = Some (st_observedConfig st),
                              ret_errs = st_errs st,
                              recorded = st_events st
                                @ (if caBundleSynced
                                   then [Eventf eventComponentName ''ExternalOIDC CA bundle configmap synced'' []]
                                   else [])
                                @ (if st_configChanged st
                                   then [Eventf eventComponentName ''ExternalOIDC configuration changed'' []]
                                   else []),
                              synced = requests\<rparr>)))))"

text \<open>
  \<^verbatim>\<open>ObserveExternalOIDC\<close> of external\_oidc.go. The warning it logs when the
  authentication resource is not found is no event and is not in the model.
\<close>

definition ObserveExternalOIDC :: "(string \<Rightarrow> error + URL) \<Rightarrow> FeatureGateAccess \<Rightarrow> Listers \<Rightarrow> config \<Rightarrow> observation" where
  "ObserveExternalOIDC url_Parse featureGateAccessor listers existingConfig =
     (if \<not> AreInitialFeatureGatesObserved featureGateAccessor then
        \<lparr>ret = existingConfig, ret_errs = [], recorded = [], synced = []\<rparr>
      else
        (case CurrentFeatureGates featureGateAccessor of
           Inl err \<Rightarrow> \<lparr>ret = existingConfig, ret_errs = [err], recorded = [], synced = []\<rparr>
         | Inr featureGates \<Rightarrow>
             if \<not> featureGates FeatureGateExternalOIDC then
               \<lparr>ret = existingConfig, ret_errs = [], recorded = [], synced = []\<rparr>
             else
               (case AuthConfigLister_Get listers ''cluster'' of
                  Inl err \<Rightarrow>
                    if IsNotFound err
                    then \<lparr>ret = existingConfig, ret_errs = [], recorded = [], synced = []\<rparr>
                    else \<lparr>ret = existingConfig, ret_errs = [err], recorded = [], synced = []\<rparr>
                | Inr auth \<Rightarrow>
                    if Spec_Type auth = AuthenticationTypeIntegratedOAuth
                       \<or> Spec_Type auth = AuthenticationTypeNone \<or> Spec_Type auth = []
                    then
                      (let target = \<lparr>Namespace = TargetNamespace, Name = TargetOIDCCAConfigMapName\<rparr>;
                           source = \<lparr>Namespace = [], Name = []\<rparr>
                       in case SyncConfigMap listers target source of
                            Some err \<Rightarrow>
                              \<lparr>ret = existingConfig, ret_errs = [err], recorded = [],
                               synced = [(target, source)]\<rparr>
                          | None \<Rightarrow>
                              (case oidcConfigExists existingConfig of
                                 (oidcAlreadyExists, Some err) \<Rightarrow>
                                   \<lparr>ret = existingConfig, ret_errs = [err], recorded = [],
                                    synced = [(target, source)]\<rparr>
                               | (oidcAlreadyExists, None) \<Rightarrow>
                                   \<lparr>ret = None, ret_errs = [],
                                    recorded = (if oidcAlreadyExists
                                              then [Eventf eventComponentName ''Removed ExternalOIDC configuration'' []]
                                              else []),
                                    synced = [(target, source)]\<rparr>))
                    else if Spec_Type auth = AuthenticationTypeOIDC
                    then observeExternalOIDC url_Parse auth listers existingConfig
                    else
                      \<lparr>ret = existingConfig,
                       ret_errs = [Errorf ''invalid auth type: %s'' [S (Spec_Type auth)]],
                       recorded = [], synced = []\<rparr>)))"

section \<open>The observer of the structured authentication config (the second external\_oidc.go)\<close>

text \<open>
  The source files hold a second version of external\_oidc.go (src/unnamed/part\_002),
  whose \<^verbatim>\<open>ObserveExternalOIDC\<close> mirrors the auth-config config map and sets the
  \<^verbatim>\<open>authentication-config\<close> argument. Its names carry the suffix \<open>_authConfig\<close>
  where they would clash with the first version's.
\<close>

definition argAuthConfig :: string where
  "argAuthConfig = ''authentication-config''"

definition SourceAuthConfigCMNamespace :: string where
  "SourceAuthConfigCMNamespace = ''openshift-config-managed''"

definition AuthConfigCMName :: string where
  "AuthConfigCMName = ''auth-config''"

definition authConfigKeyName :: string where
  "authConfigKeyName = ''auth-config.json''"

text \<open>
  \<^verbatim>\<open>syncConfigMap\<close>: the mirror request for the auth-config config map and the event
  that tells it. The error, the events and the requests of the call.
\<close>

definition syncConfigMap :: "Listers \<Rightarrow> string \<Rightarrow> string \<Rightarrow> error option \<times> event list \<times> (ResourceLocation \<times> ResourceLocation) list" where
  "syncConfigMap syncer sourceName sourceNamespace =
     (let target = \<lparr>Namespace = TargetNamespace, Name = AuthConfigCMName\<rparr>;
          source = \<lparr>Namespace = sourceNamespace, Name = sourceName\<rparr>
      in case SyncConfigMap syncer target source of
           Some err \<Rightarrow> (Some err, [], [(target, source)])
         | None \<Rightarrow>
             if length sourceName = 0
             then (None,
                   [Eventf ''ObserveExternalOIDC'' ''deleted configmap %s/%s''
                      [S TargetNamespace, S AuthConfigCMName]],
                   [(target, source)])
             else (None,
                   [Eventf ''ObserveExternalOIDC'' ''sync requested for configmap %s/%s to %s/%s''
                      [S sourceNamespace, S sourceName, S TargetNamespace, S AuthConfigCMName]],
                   [(target, source)]))"

definition ObserveExternalOIDC_authConfig :: "FeatureGateAccess \<Rightarrow> Listers \<Rightarrow> config \<Rightarrow> observation" where
  "ObserveExternalOIDC_authConfig featureGateAccessor listers existingConfig =
     (if \<not> AreInitialFeatureGatesObserved featureGateAccessor then
        \<lparr>ret = existingConfig, ret_errs = [], recorded = [], synced = []\<rparr>
      else
        (case CurrentFeatureGates featureGateAccessor of
           Inl err \<Rightarrow> \<lparr>ret = existingConfig, ret_errs = [err], recorded = [], synced = []\<rparr>
         | Inr featureGates \<Rightarrow>
             if \<not> featureGates FeatureGateExternalOIDC then
               \<lparr>ret = existingConfig, ret_errs = [], recorded = [], synced = []\<rparr>
             else
               (case AuthConfigLister_Get listers ''cluster'' of
                  Inl err \<Rightarrow>
                    if IsNotFound err
                    then \<lparr>ret = existingConfig, ret_errs = [],
                          recorded = [Eventf ''ObserveExternalOIDC''
                                        ''authentications.config.openshift.io/cluster: not found'' []],
                          synced = []\<rparr>
                    else \<lparr>ret = existingConfig, ret_errs = [err], recorded = [], synced = []\<rparr>
                | Inr auth \<Rightarrow>
                    if Spec_Type auth \<noteq> AuthenticationTypeOIDC then
                      (case ConfigMapLister_Get listers TargetNamespace AuthConfigCMName of
                         Inl err \<Rightarrow>
                           if IsNotFound err
                           then \<lparr>ret = None, ret_errs = [], recorded = [], synced = []\<rparr>
                           else \<lparr>ret = existingConfig,
                                 ret_errs = [Errorf ''failed to get configmap %s/%s: %v''
                                               [S TargetNamespace, S AuthConfigCMName, V err]],
                                 recorded = [], synced = []\<rparr>
                       | Inr _ \<Rightarrow>
                           (case syncConfigMap listers [] [] of
                              (Some err, evs, requests) \<Rightarrow>
                                \<lparr>ret = existingConfig, ret_errs = [err], recorded = evs, synced = requests\<rparr>
                            | (None, evs, requests) \<Rightarrow>
                                \<lparr>ret = None, ret_errs = [], recorded = evs, synced = requests\<rparr>))
                    else
                      (case ConfigMapLister_Get listers SourceAuthConfigCMNamespace AuthConfigCMName of
                         Inl err \<Rightarrow>
                           if IsNotFound err
                           then \<lparr>ret = existingConfig, ret_errs = [], recorded = [], synced = []\<rparr>
                           else \<lparr>ret = existingConfig,
                                 ret_errs = [Errorf ''failed to get configmap %s/%s: %v''
                                               [S SourceAuthConfigCMNamespace, S AuthConfigCMName, V err]],
                                 recorded = [], synced = []\<rparr>
                       | Inr sourceAuthConfig \<Rightarrow>
                           (let authConfigRaw =
                                  (case fmlookup (Data sourceAuthConfig) authConfigKeyName of
                                     None \<Rightarrow> [] | Some v \<Rightarrow> v)
                            in if length authConfigRaw = 0 then
                                 \<lparr>ret = existingConfig,
                                  ret_errs = [Errorf ''configmap %s/%s is invalid: key '%s' missing or value empty''
                                                [S SourceAuthConfigCMNamespace, S AuthConfigCMName, S authConfigKeyName]],
                                  recorded = [], synced = []\<rparr>
                               else
                                 (case
                                    (case ConfigMapLister_Get listers TargetNamespace AuthConfigCMName of
                                       Inl err \<Rightarrow> if IsNotFound err then Inr None else Inl err
                                     | Inr targetAuthConfig \<Rightarrow> Inr (Some targetAuthConfig))
                                  of
                                    Inl err \<Rightarrow>
                                      \<lparr>ret = existingConfig, ret_errs = [err], recorded = [], synced = []\<rparr>
                                  | Inr targetAuthConfig \<Rightarrow>
                                      (let (err, evs, requests) =
                                             (if (case targetAuthConfig of
                                                    None \<Rightarrow> True
                                                  | Some t \<Rightarrow> \<not> Semantic_DeepEqual (Data t) (Data sourceAuthConfig))
                                              then syncConfigMap listers (cm_Name sourceAuthConfig)
                                                     (cm_Namespace sourceAuthConfig)
                                              else (None, [], []))
                                       in case err of
                                            Some err \<Rightarrow>
                                              \<lparr>ret = existingConfig, ret_errs = [err],
                                               recorded = evs, synced = requests\<rparr>
                                          | None \<Rightarrow>
                                              (case SetNestedStringSlice fmempty
                                                      [''/etc/kubernetes/static-pod-resources/configmaps''
                                                         @ ''/'' @ AuthConfigCMName @ ''/'' @ authConfigKeyName]
                                                      [apiServerArgumentsPath, argAuthConfig] of
                                                 (observedConfig, Some err) \<Rightarrow>
                                                   \<lparr>ret = existingConfig, ret_errs = [err],
                                                    recorded = evs, synced = requests\<rparr>
                                               | (observedConfig, None) \<Rightarrow>
                                                   \<lparr>ret = Some observedConfig, ret_errs = [],
                                                    recorded = evs, synced = requests\<rparr>))))))))"

section \<open>rolebindingrestrictions.go\<close>

definition disableAdmissionPluginsPath :: "string list" where
  "disableAdmissionPluginsPath = [''apiServerArguments'', ''disable-admission-plugins'']"

definition rbrPlugins :: "string list" where
  "rbrPlugins =
     [''authorization.openshift.io/RestrictSubjectBindings'',
      ''authorization.openshift.io/ValidateRoleBindingRestriction'']"

text \<open>
  Modelled from the spec: \<^verbatim>\<open>sets.String\<close> of the vendored k8s.io/apimachinery (not
  among the source files), a set of strings: \<open>NewString\<close> makes it from its
  elements, \<open>Insert\<close> adds elements, \<open>List\<close> gives the elements in ascending
  order (strings compare byte by byte, a proper prefix first).
\<close>

definition sets_NewString :: "string list \<Rightarrow> string set" where
  "sets_NewString items = set items"

definition sets_Insert :: "string set \<Rightarrow> string list \<Rightarrow> string set" where
  "sets_Insert s items = s \<union> set items"

definition sets_List :: "string set \<Rightarrow> string list" where
  "sets_List s = sorted_list_of_set s"

text \<open>An empty container: an empty sequence or an empty map.\<close>

definition is_empty_container :: "jv \<Rightarrow> bool" where
  "is_empty_container v = (v = JSlice [] \<or> v = JMap fmempty)"

text \<open>
  Modelled from the spec: \<^verbatim>\<open>configobserver.Pruned\<close> of the vendored library-go (not
  among the source files), the prune-by-path of the tree: everything outside the given
  path is dropped, and "a pruning pass removes any path whose value is empty" (an
  empty sequence or map), so no vestigial empty container stays. A nil tree stays
  nil; a path that cannot be read is dropped.
\<close>

definition Pruned :: "config \<Rightarrow> string list \<Rightarrow> config" where
  "Pruned obj pth =
     (case obj of
        None \<Rightarrow> None
      | Some m \<Rightarrow>
          (case NestedFieldNoCopy obj pth of
             (x, True, None) \<Rightarrow>
               if is_empty_container x then Some fmempty
               else Some (fst (SetNestedField fmempty x pth))
           | (x, found, err) \<Rightarrow> Some fmempty))"

text \<open>
  \<^verbatim>\<open>ObserveRoleBindingRestrictionPlugins\<close>. Its deferred function prunes whatever
  the body returns.
\<close>

definition ObserveRoleBindingRestrictionPlugins :: "Listers \<Rightarrow> config \<Rightarrow> observation" where
  "ObserveRoleBindingRestrictionPlugins listers existingConfig =
     (let observedConfig = fmempty;
          returned =
            (case AuthConfigLister_Get listers ''cluster'' of
               Inl err \<Rightarrow>
                 if IsNotFound err
                 then \<lparr>ret = Some observedConfig, ret_errs = [],
                       recorded = [Eventf ''ObserveRoleBindingRestrictions''
                                     ''authentications.config.openshift.io/cluster: not found'' []],
                       synced = []\<rparr>
                 else \<lparr>ret = existingConfig, ret_errs = [err], recorded = [], synced = []\<rparr>
             | Inr auth \<Rightarrow>
                 if Spec_Type auth = AuthenticationTypeIntegratedOAuth \<or> length (Spec_Type auth) = 0
                 then \<lparr>ret = existingConfig, ret_errs = [], recorded = [], synced = []\<rparr>
                 else
                   (case NestedStringSlice existingConfig disableAdmissionPluginsPath of
                      (disabled, found, Some err) \<Rightarrow>
                        \<lparr>ret = existingConfig, ret_errs = [err], recorded = [], synced = []\<rparr>
                    | (disabled, found, None) \<Rightarrow>
                        (let disabledSet = sets_NewString disabled;
                             disabledSet = sets_Insert disabledSet rbrPlugins
                         in case SetNestedStringSlice observedConfig (sets_List disabledSet)
                                   disableAdmissionPluginsPath of
                              (m, Some err) \<Rightarrow>
                                \<lparr>ret = existingConfig, ret_errs = [err], recorded = [], synced = []\<rparr>
                            | (m, None) \<Rightarrow>
                                \<lparr>ret = Some m, ret_errs = [], recorded = [], synced = []\<rparr>)))
      in returned\<lparr>ret := Pruned (ret returned) disableAdmissionPluginsPath\<rparr>)"

section \<open>Fixtures and auxiliary definitions\<close>

text \<open>
  The states the properties are tried on, after the fixtures of
  external\_oidc\_test.go: an indexer of config maps for the lister, the config maps
  of \<^verbatim>\<open>TestCMNeedsSync\<close>, a hard-coded feature gate access, and a syncer that
  accepts every request.
\<close>

definition indexer_ConfigMaps :: "ConfigMap list \<Rightarrow> string \<Rightarrow> string \<Rightarrow> error + ConfigMap" where
  "indexer_ConfigMaps cms namespace name =
     (case find (\<lambda>cm. cm_Namespace cm = namespace \<and> cm_Name cm = name) cms of
        None \<Rightarrow> Inl (StatusNotFound name)
      | Some cm \<Rightarrow> Inr cm)"

definition test_cm1 :: ConfigMap where
  "test_cm1 = \<lparr>cm_Name = ''cm1'', cm_Namespace = ''ns1'',
     Data = fmupd ''keyA'' ''aaa'' (fmupd ''keyB'' ''bbb'' (fmupd ''key1'' ''val1'' fmempty))\<rparr>"

definition test_cm2 :: ConfigMap where
  "test_cm2 = \<lparr>cm_Name = ''cm2'', cm_Namespace = ''ns2'',
     Data = fmupd ''keyA'' ''aaa'' (fmupd ''keyB'' ''bbbbbb'' (fmupd ''key2'' ''val2'' fmempty))\<rparr>"

definition test_listers :: Listers where
  "test_listers =
     \<lparr>AuthConfigLister_Get = (\<lambda>name. Inl (StatusNotFound name)),
      ConfigMapLister_Get = indexer_ConfigMaps [test_cm1, test_cm2],
      SyncConfigMap = (\<lambda>target source. None)\<rparr>"

definition gates_not_observed :: FeatureGateAccess where
  "gates_not_observed =
     \<lparr>AreInitialFeatureGatesObserved = False,
      CurrentFeatureGates = Inl (StatusError ''featureGates not yet observed'')\<rparr>"

definition gates_ExternalOIDC :: FeatureGateAccess where
  "gates_ExternalOIDC =
     \<lparr>AreInitialFeatureGatesObserved = True,
      CurrentFeatureGates = Inr (\<lambda>gate. gate = FeatureGateExternalOIDC)\<rparr>"

text \<open>A stand-in for the URL parser: the scheme is what stands before the first colon.\<close>

definition stub_url_Parse :: "string \<Rightarrow> error + URL" where
  "stub_url_Parse rawURL =
     (if CHR '':'' \<in> set rawURL
      then Inr \<lparr>Scheme = takeWhile (\<lambda>c. c \<noteq> CHR '':'') rawURL\<rparr>
      else Inr \<lparr>Scheme = []\<rparr>)"

text \<open>An existing tree that holds OIDC arguments.\<close>

definition oidc_config :: "(string, jv) fmap" where
  "oidc_config =
     fmupd ''apiServerArguments''
       (JMap (fmupd ''oidc-issuer-url'' (JSlice [JStr ''https://idp.example.com''])
             (fmupd ''oidc-client-id'' (JSlice [JStr ''abc''])
             (fmupd ''oidc-username-claim'' (JSlice [JStr ''sub'']) fmempty))))
       fmempty"

text \<open>
  The fragment under construction can take a value at a path below
  \<^verbatim>\<open>apiServerArguments\<close>: that key is absent or holds a map.
\<close>

definition arguments_settable :: "(string, jv) fmap \<Rightarrow> bool" where
  "arguments_settable m =
     (case fmlookup m apiServerArgumentsPath of
        None \<Rightarrow> True
      | Some (JMap args) \<Rightarrow> True
      | Some v \<Rightarrow> False)"

text \<open>Listers over an authentication resource (or none) and an indexer of config maps.\<close>

definition listers_of :: "Authentication option \<Rightarrow> ConfigMap list \<Rightarrow> Listers" where
  "listers_of auth cms =
     \<lparr>AuthConfigLister_Get =
        (\<lambda>name. case auth of
                   None \<Rightarrow> Inl (StatusNotFound name)
                 | Some a \<Rightarrow> if name = ''cluster'' then Inr a else Inl (StatusNotFound name)),
      ConfigMapLister_Get = indexer_ConfigMaps cms,
      SyncConfigMap = (\<lambda>target source. None)\<rparr>"

definition auth_IntegratedOAuth :: Authentication where
  "auth_IntegratedOAuth = \<lparr>Spec_Type = AuthenticationTypeIntegratedOAuth, Spec_OIDCProviders = []\<rparr>"

text \<open>
  The provider of the end-to-end scenarios: issuer https://idp.example.com, username
  claim sub, and the given username prefix policy, client ID of the kube-apiserver
  component and name of the CA bundle config map.
\<close>

definition scenario_provider :: "string \<Rightarrow> string \<Rightarrow> string \<Rightarrow> OIDCProvider" where
  "scenario_provider prefixPolicy clientID caName =
     \<lparr>Issuer_URL = ''https://idp.example.com'',
      Issuer_CertificateAuthority_Name = caName,
      OIDCClients =
        [\<lparr>ComponentName = ''console'', ComponentNamespace = ''openshift-console'',
          ClientID = ''console-oidc-client''\<rparr>,
         \<lparr>ComponentName = ''kube-apiserver'', ComponentNamespace = ''openshift-kube-apiserver'',
          ClientID = clientID\<rparr>],
      ClaimMappings_Username_Claim = ''sub'',
      ClaimMappings_Username_PrefixPolicy = prefixPolicy,
      ClaimMappings_Username_Prefix = None,
      ClaimMappings_Groups_Claim = [],
      ClaimMappings_Groups_Prefix = [],
      ClaimValidationRules = []\<rparr>"

definition auth_OIDC :: "OIDCProvider \<Rightarrow> Authentication" where
  "auth_OIDC provider = \<lparr>Spec_Type = AuthenticationTypeOIDC, Spec_OIDCProviders = [provider]\<rparr>"

definition oidc_listers :: "string \<Rightarrow> string \<Rightarrow> string \<Rightarrow> ConfigMap list \<Rightarrow> Listers" where
  "oidc_listers prefixPolicy clientID caName cms =
     listers_of (Some (auth_OIDC (scenario_provider prefixPolicy clientID caName))) cms"

text \<open>The CA bundle config map in the operator's target namespace.\<close>

definition target_cm :: ConfigMap where
  "target_cm =
     \<lparr>cm_Name = ''oidc-serving-ca-bundle'', cm_Namespace = ''openshift-kube-apiserver'',
      Data = fmupd ''ca-bundle.crt'' ''some-cert'' fmempty\<rparr>"


text \<open>The state in which \<^verbatim>\<open>observeExternalOIDC\<close> enters its merge/diff loop.\<close>

definition initial_state :: "error list \<Rightarrow> loop_state" where
  "initial_state errs =
     \<lparr>st_configChanged = False, st_observedConfig = fmempty, st_errs = errs, st_events = []\<rparr>"

text \<open>
  The fixtures of \<^verbatim>\<open>TestObserveRoleBindingRestrictions\<close>: an existing tree with
  disabled admission plugins beside another argument, and an authentication resource
  of a given type.
\<close>

definition test_config :: "string list \<Rightarrow> (string, jv) fmap" where
  "test_config disabled =
     fmupd ''apiServerArguments''
       (JMap (fmupd ''authentication-token-webhook-config-file'' (JStr ''/etc/webhook'')
             (fmupd ''disable-admission-plugins'' (JSlice (map JStr disabled)) fmempty)))
       fmempty"

definition auth_of_type :: "string \<Rightarrow> Authentication" where
  "auth_of_type authType = \<lparr>Spec_Type = authType, Spec_OIDCProviders = []\<rparr>"

section \<open>Properties\<close>

subsection \<open>The comparison of the config maps\<close>

lemma test_get1: "ConfigMapLister_Get test_listers ''ns1'' ''cm1'' = Inr test_cm1"
  by (simp add: test_listers_def indexer_ConfigMaps_def test_cm1_def test_cm2_def)

lemma test_get2: "ConfigMapLister_Get test_listers ''ns2'' ''cm2'' = Inr test_cm2"
  by (simp add: test_listers_def indexer_ConfigMaps_def test_cm1_def test_cm2_def)

text \<open>
  C5, as the code has it. For \<open>cmNeedsSync\<close> with an existing target, a non-empty
  source name, a found source and a non-empty comparison key: when the key is in both
  config maps, the answer is whether the two values differ, without error; when the key
  is only in the source, the answer is true; when the key is only in the target, the
  call returns false and the error "not found in source configmap"; when it is in
  neither, false and the error "not found in either configmap".
\<close>

theorem cmNeedsSync_comparison_key:
  assumes "ConfigMapLister_Get listers destinationCMNamespace destinationCMName = Inr existingCM"
    and "sourceCMName \<noteq> []"
    and "ConfigMapLister_Get listers sourceCMNamespace sourceCMName = Inr sourceCM"
    and "key \<noteq> []"
  shows "cmNeedsSync listers destinationCMName destinationCMNamespace sourceCMName sourceCMNamespace key =
     (case (fmlookup (Data existingCM) key, fmlookup (Data sourceCM) key) of
        (Some val1, Some val2) \<Rightarrow> (val1 \<noteq> val2, None)
      | (Some val1, None) \<Rightarrow> (False, Some (Errorf ''key '%s' not found in source configmap'' [S key]))
      | (None, Some val2) \<Rightarrow> (True, None)
      | (None, None) \<Rightarrow> (False, Some (Errorf ''key '%s' not found in either configmap'' [S key])))"
  using assms by (simp add: cmNeedsSync_def Let_def split: option.splits)

theorem cmNeedsSync_comparison_key_witness:
  "cmNeedsSync test_listers ''cm1'' ''ns1'' ''cm2'' ''ns2'' ''keyB'' = (True, None)"
  using cmNeedsSync_comparison_key [OF test_get1 _ test_get2, of "''keyB''"]
  by (simp add: test_cm1_def test_cm2_def)

text \<open>
  The claim as it was stated fails where the key is only in the target: the test case
  "configmap key not found in second cm" (key1 is in cm1 and not in cm2) gives false
  and an error, not true.
\<close>

theorem cmNeedsSync_key_only_in_target:
  "ConfigMapLister_Get test_listers ''ns1'' ''cm1'' = Inr test_cm1
   \<and> ConfigMapLister_Get test_listers ''ns2'' ''cm2'' = Inr test_cm2
   \<and> fmlookup (Data test_cm1) ''key1'' = Some ''val1''
   \<and> fmlookup (Data test_cm2) ''key1'' = None
   \<and> cmNeedsSync test_listers ''cm1'' ''ns1'' ''cm2'' ''ns2'' ''key1''
       = (False, Some (Errorf ''key '%s' not found in source configmap'' [S ''key1'']))"
  by (simp add: test_get1 test_get2 cmNeedsSync_def Let_def) (simp add: test_cm1_def test_cm2_def)

subsection \<open>The feature gates\<close>

text \<open>
  C2. For every existing config and every state of the cluster, when the feature gate
  accessor has not observed its initial feature gates, both versions of
  \<open>ObserveExternalOIDC\<close> return the existing config as it is with no error, record
  no event and issue no mirror request.
\<close>

theorem gating_before_initial_feature_gates:
  assumes "\<not> AreInitialFeatureGatesObserved featureGateAccessor"
  shows "ObserveExternalOIDC url_Parse featureGateAccessor listers existingConfig
           = \<lparr>ret = existingConfig, ret_errs = [], recorded = [], synced = []\<rparr>
       \<and> ObserveExternalOIDC_authConfig featureGateAccessor listers existingConfig
           = \<lparr>ret = existingConfig, ret_errs = [], recorded = [], synced = []\<rparr>"
  using assms by (simp add: ObserveExternalOIDC_def ObserveExternalOIDC_authConfig_def)

theorem gating_before_initial_feature_gates_witness:
  "ObserveExternalOIDC stub_url_Parse gates_not_observed test_listers (Some oidc_config)
     = \<lparr>ret = Some oidc_config, ret_errs = [], recorded = [], synced = []\<rparr>
   \<and> ObserveExternalOIDC_authConfig gates_not_observed test_listers (Some oidc_config)
     = \<lparr>ret = Some oidc_config, ret_errs = [], recorded = [], synced = []\<rparr>"
  using gating_before_initial_feature_gates [of gates_not_observed]
  by (simp add: gates_not_observed_def)

subsection \<open>The accessors on a path of two fields\<close>

lemma SetNestedSlice_two:
  "SetNestedSlice m v [a, p] =
     (case fmlookup m a of
        None \<Rightarrow> (fmupd a (JMap (fmupd p (JSlice v) fmempty)) m, None)
      | Some (JMap args) \<Rightarrow> (fmupd a (JMap (fmupd p (JSlice v) args)) m, None)
      | Some x \<Rightarrow> (m, Some (Errorf ''value cannot be set because %v is not a map[string]interface{}'' [S a])))"
  by (simp add: SetNestedSlice_def split: option.splits jv.splits)

lemma NestedSlice_two:
  "NestedSlice (Some m) [a, p] =
     (case fmlookup m a of
        None \<Rightarrow> ([], False, None)
      | Some (JMap args) \<Rightarrow>
          (case fmlookup args p of
             None \<Rightarrow> ([], False, None)
           | Some (JSlice xs) \<Rightarrow> (xs, True, None)
           | Some x \<Rightarrow> ([], False, Some (AccessorError [a, p] ''[]interface{}'')))
      | Some JNull \<Rightarrow> ([], False, None)
      | Some x \<Rightarrow> ([], False, Some (AccessorError [a, p] ''map[string]interface{}'')))"
  by (simp add: NestedSlice_def NestedFieldNoCopy_def the_map_def split: option.splits jv.splits)

lemma NestedSlice_nil: "NestedSlice None [a, p] = ([], False, None)"
  by (simp add: NestedSlice_def NestedFieldNoCopy_def the_map_def)

lemma SetNestedSlice_settable:
  assumes "arguments_settable m"
  shows "\<exists>m'. SetNestedSlice m v [apiServerArgumentsPath, p] = (m', None)
          \<and> arguments_settable m'
          \<and> NestedSlice (Some m') [apiServerArgumentsPath, p] = (v, True, None)
          \<and> (\<forall>q. q \<noteq> p \<longrightarrow> NestedSlice (Some m') [apiServerArgumentsPath, q]
                                = NestedSlice (Some m) [apiServerArgumentsPath, q])"
proof (cases "fmlookup m apiServerArgumentsPath")
  case None
  then show ?thesis
    by (simp add: arguments_settable_def SetNestedSlice_two NestedSlice_two)
next
  case (Some x)
  then obtain args where x: "x = JMap args"
    using assms by (cases x) (simp_all add: arguments_settable_def)
  show ?thesis
    using Some x by (simp add: arguments_settable_def SetNestedSlice_two NestedSlice_two)
qed


lemma loop_Cons:
  assumes "arguments_settable (st_observedConfig st)"
  obtains st1 where
    "observeExternalOIDC_loop existingConfig vals (path # paths) st
       = observeExternalOIDC_loop existingConfig vals paths st1"
    "arguments_settable (st_observedConfig st1)"
    "st_events st1 = st_events st"
    "st_observedConfig st1 =
       (case fmlookup vals path of
          None \<Rightarrow> st_observedConfig st
        | Some v \<Rightarrow> fst (SetNestedSlice (st_observedConfig st) v [apiServerArgumentsPath, path]))"
    "st_configChanged st1 =
       (st_configChanged st
        \<or> (snd (snd (NestedSlice existingConfig [apiServerArgumentsPath, path])) = None
           \<and> fst (NestedSlice existingConfig [apiServerArgumentsPath, path])
               \<noteq> (case fmlookup vals path of None \<Rightarrow> [] | Some v \<Rightarrow> v)))"
    "st_errs st1 =
       (if st_configChanged st then st_errs st
        else case snd (snd (NestedSlice existingConfig [apiServerArgumentsPath, path])) of
               Some err \<Rightarrow> st_errs st @ [err]
             | None \<Rightarrow> st_errs st)"
proof -
  define newVal where "newVal = (case fmlookup vals path of None \<Rightarrow> [] | Some v \<Rightarrow> v)"
  define st0 where "st0 =
    (if \<not> st_configChanged st then
       (case NestedSlice existingConfig [apiServerArgumentsPath, path] of
          (existingValue, _, Some err) \<Rightarrow> st\<lparr>st_errs := st_errs st @ [err]\<rparr>
        | (existingValue, _, None) \<Rightarrow>
            if \<not> Semantic_DeepEqual existingValue newVal
            then st\<lparr>st_configChanged := True\<rparr> else st)
     else st)"
  have o: "st_observedConfig st0 = st_observedConfig st"
    and e: "st_events st0 = st_events st"
    by (simp_all add: st0_def split: prod.splits option.splits)
  have c: "st_configChanged st0 =
       (st_configChanged st
        \<or> (snd (snd (NestedSlice existingConfig [apiServerArgumentsPath, path])) = None
           \<and> fst (NestedSlice existingConfig [apiServerArgumentsPath, path]) \<noteq> newVal))"
    by (cases "NestedSlice existingConfig [apiServerArgumentsPath, path]")
       (auto simp add: st0_def Semantic_DeepEqual_def split: option.splits)
  have r: "st_errs st0 =
       (if st_configChanged st then st_errs st
        else case snd (snd (NestedSlice existingConfig [apiServerArgumentsPath, path])) of
               Some err \<Rightarrow> st_errs st @ [err]
             | None \<Rightarrow> st_errs st)"
    by (cases "NestedSlice existingConfig [apiServerArgumentsPath, path]")
       (auto simp add: st0_def split: option.splits)
  show ?thesis
  proof (cases "fmlookup vals path")
    case None
    have "observeExternalOIDC_loop existingConfig vals (path # paths) st
            = observeExternalOIDC_loop existingConfig vals paths st0"
      using None by (simp add: Let_def st0_def newVal_def)
    then show ?thesis
      using that [of st0] assms None o e c r by (simp add: newVal_def)
  next
    case (Some v)
    obtain m' where m': "SetNestedSlice (st_observedConfig st) v [apiServerArgumentsPath, path] = (m', None)"
      "arguments_settable m'"
      using SetNestedSlice_settable [OF assms] by blast
    have "observeExternalOIDC_loop existingConfig vals (path # paths) st
            = (case SetNestedSlice (st_observedConfig st0) v [apiServerArgumentsPath, path] of
                 (m, Some err) \<Rightarrow>
                   observeExternalOIDC_loop existingConfig vals paths
                     (st0\<lparr>st_observedConfig := m,
                         st_events := st_events st0 @
                           [Eventf eventComponentName ''Failed setting '%s': %v'' [S path, V err]],
                         st_errs := st_errs st0 @ [err]\<rparr>)
               | (m, None) \<Rightarrow>
                   observeExternalOIDC_loop existingConfig vals paths (st0\<lparr>st_observedConfig := m\<rparr>))"
      using Some by (simp add: Let_def st0_def newVal_def)
    then have "observeExternalOIDC_loop existingConfig vals (path # paths) st
            = observeExternalOIDC_loop existingConfig vals paths (st0\<lparr>st_observedConfig := m'\<rparr>)"
      by (simp add: o m'(1))
    then show ?thesis
      using that [of "st0\<lparr>st_observedConfig := m'\<rparr>"] Some m' e c r by (simp add: newVal_def)
  qed
qed

lemma loop_fragment:
  assumes "arguments_settable (st_observedConfig st)"
  shows "arguments_settable (st_observedConfig (observeExternalOIDC_loop existingConfig vals paths st))
       \<and> st_events (observeExternalOIDC_loop existingConfig vals paths st) = st_events st
       \<and> (\<forall>q. NestedSlice (Some (st_observedConfig (observeExternalOIDC_loop existingConfig vals paths st)))
                 [apiServerArgumentsPath, q]
              = (case fmlookup vals q of
                   Some v \<Rightarrow> if q \<in> set paths then (v, True, None)
                             else NestedSlice (Some (st_observedConfig st)) [apiServerArgumentsPath, q]
                 | None \<Rightarrow> NestedSlice (Some (st_observedConfig st)) [apiServerArgumentsPath, q]))"
  using assms
proof (induction paths arbitrary: st)
  case Nil
  then show ?case by (simp split: option.splits)
next
  case (Cons path paths)
  obtain st1 where st1:
    "observeExternalOIDC_loop existingConfig vals (path # paths) st
       = observeExternalOIDC_loop existingConfig vals paths st1"
    "arguments_settable (st_observedConfig st1)"
    "st_events st1 = st_events st"
    "st_observedConfig st1 =
       (case fmlookup vals path of
          None \<Rightarrow> st_observedConfig st
        | Some v \<Rightarrow> fst (SetNestedSlice (st_observedConfig st) v [apiServerArgumentsPath, path]))"
    using loop_Cons [OF Cons.prems] by metis
  show ?case
  proof (cases "fmlookup vals path")
    case None
    then show ?thesis
      using Cons.IH [OF st1(2)] st1 by (auto split: option.splits)
  next
    case (Some v)
    obtain m' where m': "SetNestedSlice (st_observedConfig st) v [apiServerArgumentsPath, path] = (m', None)"
      "NestedSlice (Some m') [apiServerArgumentsPath, path] = (v, True, None)"
      "\<forall>q. q \<noteq> path \<longrightarrow> NestedSlice (Some m') [apiServerArgumentsPath, q]
                                = NestedSlice (Some (st_observedConfig st)) [apiServerArgumentsPath, q]"
      using SetNestedSlice_settable [OF Cons.prems] by blast
    have o: "st_observedConfig st1 = m'" using st1(4) Some m'(1) by simp
    have ne: "q \<noteq> path" if "fmlookup vals q = None" for q
      using that Some by auto
    show ?thesis
      using Cons.IH [OF st1(2)] Some m'(2,3) ne unfolding st1(1) o st1(3)
      by (auto split: option.splits)
  qed
qed

lemma loop_fragment_indep:
  assumes "arguments_settable (st_observedConfig st)"
    and "st_observedConfig st' = st_observedConfig st"
  shows "st_observedConfig (observeExternalOIDC_loop existingConfig' vals paths st')
       = st_observedConfig (observeExternalOIDC_loop existingConfig vals paths st)"
  using assms
proof (induction paths arbitrary: st st')
  case Nil
  then show ?case by simp
next
  case (Cons path paths)
  obtain st1 where st1:
    "observeExternalOIDC_loop existingConfig vals (path # paths) st
       = observeExternalOIDC_loop existingConfig vals paths st1"
    "arguments_settable (st_observedConfig st1)"
    "st_observedConfig st1 =
       (case fmlookup vals path of
          None \<Rightarrow> st_observedConfig st
        | Some v \<Rightarrow> fst (SetNestedSlice (st_observedConfig st) v [apiServerArgumentsPath, path]))"
    using loop_Cons [OF Cons.prems(1)] by metis
  have s': "arguments_settable (st_observedConfig st')" using Cons.prems by simp
  obtain st1' where st1':
    "observeExternalOIDC_loop existingConfig' vals (path # paths) st'
       = observeExternalOIDC_loop existingConfig' vals paths st1'"
    "st_observedConfig st1' =
       (case fmlookup vals path of
          None \<Rightarrow> st_observedConfig st'
        | Some v \<Rightarrow> fst (SetNestedSlice (st_observedConfig st') v [apiServerArgumentsPath, path]))"
    using loop_Cons [OF s'] by metis
  have "st_observedConfig st1' = st_observedConfig st1"
    unfolding st1(3) st1'(2) Cons.prems(2) by (rule refl)
  then show ?case
    using Cons.IH [OF st1(2)] st1(1) st1'(1) by simp
qed

lemma loop_readable:
  assumes "arguments_settable (st_observedConfig st)"
    and "\<forall>p\<in>set paths. snd (snd (NestedSlice existingConfig [apiServerArgumentsPath, p])) = None"
  shows "st_errs (observeExternalOIDC_loop existingConfig vals paths st) = st_errs st"
  using assms
proof (induction paths arbitrary: st)
  case Nil
  then show ?case by simp
next
  case (Cons path paths)
  obtain st1 where st1:
    "observeExternalOIDC_loop existingConfig vals (path # paths) st
       = observeExternalOIDC_loop existingConfig vals paths st1"
    "arguments_settable (st_observedConfig st1)"
    "st_errs st1 =
       (if st_configChanged st then st_errs st
        else case snd (snd (NestedSlice existingConfig [apiServerArgumentsPath, path])) of
               Some err \<Rightarrow> st_errs st @ [err]
             | None \<Rightarrow> st_errs st)"
    using loop_Cons [OF Cons.prems(1)] by metis
  have "st_errs st1 = st_errs st" using st1(3) Cons.prems(2) by simp
  then show ?case
    using Cons.IH [OF st1(2)] st1(1) Cons.prems(2) by simp
qed

lemma loop_unchanged:
  assumes "arguments_settable (st_observedConfig st)"
    and "\<not> st_configChanged st"
    and "\<forall>p\<in>set paths.
           snd (snd (NestedSlice existingConfig [apiServerArgumentsPath, p])) = None
           \<and> fst (NestedSlice existingConfig [apiServerArgumentsPath, p])
               = (case fmlookup vals p of None \<Rightarrow> [] | Some v \<Rightarrow> v)"
  shows "\<not> st_configChanged (observeExternalOIDC_loop existingConfig vals paths st)"
  using assms
proof (induction paths arbitrary: st)
  case Nil
  then show ?case by simp
next
  case (Cons path paths)
  obtain st1 where st1:
    "observeExternalOIDC_loop existingConfig vals (path # paths) st
       = observeExternalOIDC_loop existingConfig vals paths st1"
    "arguments_settable (st_observedConfig st1)"
    "st_configChanged st1 =
       (st_configChanged st
        \<or> (snd (snd (NestedSlice existingConfig [apiServerArgumentsPath, path])) = None
           \<and> fst (NestedSlice existingConfig [apiServerArgumentsPath, path])
               \<noteq> (case fmlookup vals path of None \<Rightarrow> [] | Some v \<Rightarrow> v)))"
    using loop_Cons [OF Cons.prems(1)] by metis
  have "\<not> st_configChanged st1" using st1(3) Cons.prems(2,3) by simp
  then show ?case
    using Cons.IH [OF st1(2)] st1(1) Cons.prems(3) by simp
qed

subsection \<open>The values and the errors of the fields\<close>

lemma values_closed:
  fixes url_Parse provider clientConfig
  defines "r \<equiv> observeExternalOIDC_values url_Parse provider clientConfig"
  shows "snd r =
           (case url_Parse (Issuer_URL provider) of
              Inl err \<Rightarrow> [err]
            | Inr issuerURL \<Rightarrow>
                if Scheme issuerURL \<noteq> ''https''
                then [Errorf ''https is required for provider URL'' []] else [])
           @ (if length (ClientID clientConfig) > 0 then [] else [Errorf ''OIDC client ID not set'' []])
           @ (if ClaimMappings_Username_PrefixPolicy provider = Prefix
                 \<and> ClaimMappings_Username_Prefix provider = None
              then [Errorf ''nil username prefix while policy expects one'' []] else [])
           @ (if length (ClaimValidationRules provider) > 0
              then snd (claimValidationRules_loop 0 (ClaimValidationRules provider)) else [])"
    and "fmlookup (fst r) oidcIssuerURLPath =
           (case url_Parse (Issuer_URL provider) of
              Inl err \<Rightarrow> None
            | Inr issuerURL \<Rightarrow>
                if Scheme issuerURL \<noteq> ''https'' then None else Some [JStr (Issuer_URL provider)])"
    and "fmlookup (fst r) oidcClientIDPath =
           (if length (ClientID clientConfig) > 0 then Some [JStr (ClientID clientConfig)] else None)"
    and "fmlookup (fst r) oidcUsernameClaimPath =
           (if length (ClaimMappings_Username_Claim provider) > 0
            then Some [JStr (ClaimMappings_Username_Claim provider)] else None)"
    and "fmlookup (fst r) oidcUsernamePrefixPath =
           (if ClaimMappings_Username_PrefixPolicy provider = NoOpinion then None
            else if ClaimMappings_Username_PrefixPolicy provider = NoPrefix then Some [JStr ''-'']
            else if ClaimMappings_Username_PrefixPolicy provider = Prefix
            then map_option (\<lambda>prefixString. [JStr prefixString]) (ClaimMappings_Username_Prefix provider)
            else None)"
proof -
  define s1 :: "(string, jv list) fmap \<times> error list" where "s1 =
    (case url_Parse (Issuer_URL provider) of
       Inl err \<Rightarrow> (fmempty, [] @ [err])
     | Inr issuerURL \<Rightarrow>
         if Scheme issuerURL \<noteq> ''https''
         then (fmempty, [] @ [Errorf ''https is required for provider URL'' []])
         else (fmupd oidcIssuerURLPath [JStr (Issuer_URL provider)] fmempty, []))"
  define s2 where "s2 =
    (if length (ClientID clientConfig) > 0
     then (fmupd oidcClientIDPath [JStr (ClientID clientConfig)] (fst s1), snd s1)
     else (fst s1, snd s1 @ [Errorf ''OIDC client ID not set'' []]))"
  define v3 where "v3 =
    (if length (ClaimMappings_Username_Claim provider) > 0
     then fmupd oidcUsernameClaimPath [JStr (ClaimMappings_Username_Claim provider)] (fst s2)
     else fst s2)"
  define v4 where "v4 =
    (if length (ClaimMappings_Groups_Claim provider) > 0
     then fmupd oidcGroupsClaimPath [JStr (ClaimMappings_Groups_Claim provider)] v3
     else v3)"
  define v5 where "v5 =
    (if length (ClaimMappings_Groups_Prefix provider) > 0
     then fmupd oidcGroupsPrefixPath [JStr (ClaimMappings_Groups_Prefix provider)] v4
     else v4)"
  define s6 where "s6 =
    (if ClaimMappings_Username_PrefixPolicy provider = NoOpinion
     then (v5, snd s2)
     else if ClaimMappings_Username_PrefixPolicy provider = NoPrefix
     then (fmupd oidcUsernamePrefixPath [JStr ''-''] v5, snd s2)
     else if ClaimMappings_Username_PrefixPolicy provider = Prefix
     then
       (case ClaimMappings_Username_Prefix provider of
          None \<Rightarrow> (v5, snd s2 @ [Errorf ''nil username prefix while policy expects one'' []])
        | Some prefixString \<Rightarrow> (fmupd oidcUsernamePrefixPath [JStr prefixString] v5, snd s2))
     else (v5, snd s2))"
  define s7 where "s7 =
    (if length (ClaimValidationRules provider) > 0
     then
       (case claimValidationRules_loop 0 (ClaimValidationRules provider) of
          (entries, errs') \<Rightarrow> (fmupd oidcRequiredClaimPath entries (fst s6), snd s6 @ errs'))
     else (fst s6, snd s6))"
  define v8 where "v8 =
    (if length (Issuer_CertificateAuthority_Name provider) > 0
     then fmupd oidcCAFilePath [JStr staticCABundleFilePath] (fst s7)
     else fst s7)"
  have r: "r = (v8, snd s7)"
    unfolding r_def observeExternalOIDC_values_def v8_def s7_def s6_def v5_def v4_def v3_def s2_def s1_def
    by (simp only: Let_def case_prod_beta fst_conv snd_conv)
  have e1: "snd s1 = (case url_Parse (Issuer_URL provider) of
              Inl err \<Rightarrow> [err]
            | Inr issuerURL \<Rightarrow>
                if Scheme issuerURL \<noteq> ''https''
                then [Errorf ''https is required for provider URL'' []] else [])"
    by (simp add: s1_def split: sum.splits)
  have e2: "snd s2 = snd s1 @ (if length (ClientID clientConfig) > 0 then [] else [Errorf ''OIDC client ID not set'' []])"
    by (simp add: s2_def)
  have e6: "snd s6 = snd s2 @ (if ClaimMappings_Username_PrefixPolicy provider = Prefix
                 \<and> ClaimMappings_Username_Prefix provider = None
              then [Errorf ''nil username prefix while policy expects one'' []] else [])"
    by (simp add: s6_def NoOpinion_def NoPrefix_def Prefix_def split: option.splits)
  have e7: "snd s7 = snd s6 @ (if length (ClaimValidationRules provider) > 0
              then snd (claimValidationRules_loop 0 (ClaimValidationRules provider)) else [])"
    by (simp add: s7_def split: prod.splits)
  show "snd r =
           (case url_Parse (Issuer_URL provider) of
              Inl err \<Rightarrow> [err]
            | Inr issuerURL \<Rightarrow>
                if Scheme issuerURL \<noteq> ''https''
                then [Errorf ''https is required for provider URL'' []] else [])
           @ (if length (ClientID clientConfig) > 0 then [] else [Errorf ''OIDC client ID not set'' []])
           @ (if ClaimMappings_Username_PrefixPolicy provider = Prefix
                 \<and> ClaimMappings_Username_Prefix provider = None
              then [Errorf ''nil username prefix while policy expects one'' []] else [])
           @ (if length (ClaimValidationRules provider) > 0
              then snd (claimValidationRules_loop 0 (ClaimValidationRules provider)) else [])"
    unfolding r snd_conv e7 e6 e2 e1 by simp
  have l1: "fmlookup (fst s1) q = (if q = oidcIssuerURLPath then
           (case url_Parse (Issuer_URL provider) of
              Inl err \<Rightarrow> None
            | Inr issuerURL \<Rightarrow>
                if Scheme issuerURL \<noteq> ''https'' then None else Some [JStr (Issuer_URL provider)]) else None)" for q
    by (simp add: s1_def split: sum.splits)
  have l2: "fmlookup (fst s2) q = (if q = oidcClientIDPath \<and> length (ClientID clientConfig) > 0
              then Some [JStr (ClientID clientConfig)] else fmlookup (fst s1) q)" for q
    by (simp add: s2_def)
  have l3: "fmlookup v3 q = (if q = oidcUsernameClaimPath \<and> length (ClaimMappings_Username_Claim provider) > 0
              then Some [JStr (ClaimMappings_Username_Claim provider)] else fmlookup (fst s2) q)" for q
    by (simp add: v3_def)
  have l4: "q \<noteq> oidcGroupsClaimPath \<Longrightarrow> fmlookup v4 q = fmlookup v3 q" for q
    by (simp add: v4_def)
  have l5: "q \<noteq> oidcGroupsPrefixPath \<Longrightarrow> fmlookup v5 q = fmlookup v4 q" for q
    by (simp add: v5_def)
  have l6: "fmlookup (fst s6) q = (if q = oidcUsernamePrefixPath then
           (if ClaimMappings_Username_PrefixPolicy provider = NoOpinion then fmlookup v5 q
            else if ClaimMappings_Username_PrefixPolicy provider = NoPrefix then Some [JStr ''-'']
            else if ClaimMappings_Username_PrefixPolicy provider = Prefix
            then (case ClaimMappings_Username_Prefix provider of None \<Rightarrow> fmlookup v5 q
                  | Some prefixString \<Rightarrow> Some [JStr prefixString])
            else fmlookup v5 q) else fmlookup v5 q)" for q
    by (simp add: s6_def split: option.splits)
  have l7: "q \<noteq> oidcRequiredClaimPath \<Longrightarrow> fmlookup (fst s7) q = fmlookup (fst s6) q" for q
    by (simp add: s7_def split: prod.splits)
  have l8: "q \<noteq> oidcCAFilePath \<Longrightarrow> fmlookup v8 q = fmlookup (fst s7) q" for q
    by (simp add: v8_def)
  note ls = l8 l7 l6 l5 l4 l3 l2 l1
  note ks = oidcIssuerURLPath_def oidcClientIDPath_def oidcUsernameClaimPath_def
        oidcUsernamePrefixPath_def oidcGroupsClaimPath_def oidcGroupsPrefixPath_def
        oidcRequiredClaimPath_def oidcCAFilePath_def
  have d: "oidcIssuerURLPath \<noteq> oidcCAFilePath" "oidcIssuerURLPath \<noteq> oidcRequiredClaimPath"
    "oidcIssuerURLPath \<noteq> oidcUsernamePrefixPath" "oidcIssuerURLPath \<noteq> oidcGroupsPrefixPath"
    "oidcIssuerURLPath \<noteq> oidcGroupsClaimPath" "oidcIssuerURLPath \<noteq> oidcUsernameClaimPath"
    "oidcIssuerURLPath \<noteq> oidcClientIDPath"
    "oidcClientIDPath \<noteq> oidcCAFilePath" "oidcClientIDPath \<noteq> oidcRequiredClaimPath"
    "oidcClientIDPath \<noteq> oidcUsernamePrefixPath" "oidcClientIDPath \<noteq> oidcGroupsPrefixPath"
    "oidcClientIDPath \<noteq> oidcGroupsClaimPath" "oidcClientIDPath \<noteq> oidcUsernameClaimPath"
    "oidcUsernameClaimPath \<noteq> oidcCAFilePath" "oidcUsernameClaimPath \<noteq> oidcRequiredClaimPath"
    "oidcUsernameClaimPath \<noteq> oidcUsernamePrefixPath" "oidcUsernameClaimPath \<noteq> oidcGroupsPrefixPath"
    "oidcUsernameClaimPath \<noteq> oidcGroupsClaimPath"
    "oidcUsernamePrefixPath \<noteq> oidcCAFilePath" "oidcUsernamePrefixPath \<noteq> oidcRequiredClaimPath"
    "oidcUsernamePrefixPath \<noteq> oidcGroupsPrefixPath" "oidcUsernamePrefixPath \<noteq> oidcGroupsClaimPath"
    "oidcUsernamePrefixPath \<noteq> oidcUsernameClaimPath" "oidcUsernamePrefixPath \<noteq> oidcClientIDPath"
    "oidcUsernamePrefixPath \<noteq> oidcIssuerURLPath"
    by (simp_all add: ks)
  show "fmlookup (fst r) oidcIssuerURLPath =
           (case url_Parse (Issuer_URL provider) of
              Inl err \<Rightarrow> None
            | Inr issuerURL \<Rightarrow>
                if Scheme issuerURL \<noteq> ''https'' then None else Some [JStr (Issuer_URL provider)])"
    unfolding r fst_conv by (simp add: ls d)
  show "fmlookup (fst r) oidcClientIDPath =
           (if length (ClientID clientConfig) > 0 then Some [JStr (ClientID clientConfig)] else None)"
    unfolding r fst_conv using d by (simp add: ls)
  show "fmlookup (fst r) oidcUsernameClaimPath =
           (if length (ClaimMappings_Username_Claim provider) > 0
            then Some [JStr (ClaimMappings_Username_Claim provider)] else None)"
    unfolding r fst_conv using d by (simp add: ls)
  show "fmlookup (fst r) oidcUsernamePrefixPath =
           (if ClaimMappings_Username_PrefixPolicy provider = NoOpinion then None
            else if ClaimMappings_Username_PrefixPolicy provider = NoPrefix then Some [JStr ''-'']
            else if ClaimMappings_Username_PrefixPolicy provider = Prefix
            then map_option (\<lambda>prefixString. [JStr prefixString]) (ClaimMappings_Username_Prefix provider)
            else None)"
    unfolding r fst_conv using d by (simp add: ls split: option.splits)
qed

subsection \<open>The authentication resource is missing, or its type is not OIDC\<close>

text \<open>
  C4, as the code has it. With the feature gate enabled: when the lookup of the
  authentication resource reports not-found, \<open>ObserveExternalOIDC\<close> returns the
  existing config as it is, with no error, no event and no mirror request. The hard
  reset is what it does when the resource is there with the type IntegratedOAuth, None
  or empty: when the mirror request (with the empty source location) succeeds and the
  existing config holds OIDC arguments, it returns the nil tree, records the removal
  event and has issued that mirror request, without error.
\<close>

theorem not_found_keeps_type_switch_resets:
  assumes "AreInitialFeatureGatesObserved featureGateAccessor"
    and "CurrentFeatureGates featureGateAccessor = Inr featureGates"
    and "featureGates FeatureGateExternalOIDC"
  shows "(\<forall>listers err.
            AuthConfigLister_Get listers ''cluster'' = Inl err \<and> IsNotFound err \<longrightarrow>
            ObserveExternalOIDC url_Parse featureGateAccessor listers existingConfig
              = \<lparr>ret = existingConfig, ret_errs = [], recorded = [], synced = []\<rparr>)
       \<and> (\<forall>listers auth.
            AuthConfigLister_Get listers ''cluster'' = Inr auth
            \<and> (Spec_Type auth = AuthenticationTypeIntegratedOAuth
                \<or> Spec_Type auth = AuthenticationTypeNone \<or> Spec_Type auth = [])
            \<and> SyncConfigMap listers
                  \<lparr>Namespace = TargetNamespace, Name = TargetOIDCCAConfigMapName\<rparr>
                  \<lparr>Namespace = [], Name = []\<rparr> = None
            \<and> oidcConfigExists existingConfig = (True, None) \<longrightarrow>
            ObserveExternalOIDC url_Parse featureGateAccessor listers existingConfig
              = \<lparr>ret = None, ret_errs = [],
                 recorded = [Eventf eventComponentName ''Removed ExternalOIDC configuration'' []],
                 synced = [(\<lparr>Namespace = TargetNamespace, Name = TargetOIDCCAConfigMapName\<rparr>,
                            \<lparr>Namespace = [], Name = []\<rparr>)]\<rparr>)"
  using assms by (simp add: ObserveExternalOIDC_def Let_def)

lemma oidc_config_exists: "oidcConfigExists (Some oidc_config) = (True, None)"
  by (simp add: oidcConfigExists_def oidcPaths_def oidc_config_def NestedSlice_def
      NestedFieldNoCopy_def the_map_def apiServerArgumentsPath_def oidcIssuerURLPath_def)

theorem not_found_keeps_type_switch_resets_witness:
  "ObserveExternalOIDC stub_url_Parse gates_ExternalOIDC (listers_of None []) (Some oidc_config)
     = \<lparr>ret = Some oidc_config, ret_errs = [], recorded = [], synced = []\<rparr>
   \<and> ObserveExternalOIDC stub_url_Parse gates_ExternalOIDC
       (listers_of (Some auth_IntegratedOAuth) []) (Some oidc_config)
     = \<lparr>ret = None, ret_errs = [],
        recorded = [Eventf eventComponentName ''Removed ExternalOIDC configuration'' []],
        synced = [(\<lparr>Namespace = TargetNamespace, Name = TargetOIDCCAConfigMapName\<rparr>,
                   \<lparr>Namespace = [], Name = []\<rparr>)]\<rparr>"
  using not_found_keeps_type_switch_resets
          [of gates_ExternalOIDC "\<lambda>gate. gate = FeatureGateExternalOIDC" stub_url_Parse "Some oidc_config"]
        oidc_config_exists
  by (simp add: gates_ExternalOIDC_def listers_of_def auth_IntegratedOAuth_def)

text \<open>
  The claim as it was stated fails: with the gate enabled, the authentication resource
  not found and OIDC arguments in the existing config, the existing config comes back,
  no event is recorded and no mirror request is issued.
\<close>

theorem auth_not_found_returns_existing:
  "AuthConfigLister_Get (listers_of None []) ''cluster'' = Inl (StatusNotFound ''cluster'')
   \<and> oidcConfigExists (Some oidc_config) = (True, None)
   \<and> ObserveExternalOIDC stub_url_Parse gates_ExternalOIDC (listers_of None []) (Some oidc_config)
       = \<lparr>ret = Some oidc_config, ret_errs = [], recorded = [], synced = []\<rparr>
   \<and> oidc_config \<noteq> fmempty"
proof -
  have "fmlookup oidc_config ''apiServerArguments'' \<noteq> fmlookup fmempty ''apiServerArguments''"
    by (simp add: oidc_config_def)
  then have "oidc_config \<noteq> fmempty" by metis
  then show ?thesis
    by (simp add: oidc_config_exists ObserveExternalOIDC_def gates_ExternalOIDC_def listers_of_def)
qed

subsection \<open>The required client ID\<close>

lemma values_client_id_not_set:
  assumes "ClientID clientConfig = []"
  shows "Errorf ''OIDC client ID not set'' [] \<in> set (snd (observeExternalOIDC_values url_Parse provider clientConfig))"
  using assms by (simp add: values_closed(1))

text \<open>
  C8. With the feature gates observed and the gate enabled, for every authentication
  resource of type OIDC with its one provider whose client config for the
  kube-apiserver component has an empty client ID, \<open>ObserveExternalOIDC\<close>
  returns the existing tree as it is and a non-empty list of errors that holds the
  error "OIDC client ID not set"; it records no event and issues no mirror request.
\<close>

theorem empty_client_id:
  assumes "AreInitialFeatureGatesObserved featureGateAccessor"
    and "CurrentFeatureGates featureGateAccessor = Inr featureGates"
    and "featureGates FeatureGateExternalOIDC"
    and "AuthConfigLister_Get listers ''cluster'' = Inr auth"
    and "Spec_Type auth = AuthenticationTypeOIDC"
    and "length (Spec_OIDCProviders auth) = 1"
    and "getOIDCClientForComponent auth componentName TargetNamespace = Some clientConfig"
    and "ClientID clientConfig = []"
  shows "ret (ObserveExternalOIDC url_Parse featureGateAccessor listers existingConfig) = existingConfig
       \<and> ret_errs (ObserveExternalOIDC url_Parse featureGateAccessor listers existingConfig) \<noteq> []
       \<and> Errorf ''OIDC client ID not set'' []
           \<in> set (ret_errs (ObserveExternalOIDC url_Parse featureGateAccessor listers existingConfig))
       \<and> recorded (ObserveExternalOIDC url_Parse featureGateAccessor listers existingConfig) = []
       \<and> synced (ObserveExternalOIDC url_Parse featureGateAccessor listers existingConfig) = []"
proof -
  obtain vals errs where v:
    "observeExternalOIDC_values url_Parse (Spec_OIDCProviders auth ! 0) clientConfig = (vals, errs)"
    by (cases "observeExternalOIDC_values url_Parse (Spec_OIDCProviders auth ! 0) clientConfig")
  have m: "Errorf ''OIDC client ID not set'' [] \<in> set errs"
    using values_client_id_not_set [OF assms(8), of url_Parse "Spec_OIDCProviders auth ! 0"] v by simp
  then have ne: "errs \<noteq> []" by auto
  have o: "observeExternalOIDC url_Parse auth listers existingConfig
         = \<lparr>ret = existingConfig, ret_errs = errs, recorded = [], synced = []\<rparr>"
    using assms(6,7) v ne by (simp add: observeExternalOIDC_def Let_def)
  have "ObserveExternalOIDC url_Parse featureGateAccessor listers existingConfig
         = observeExternalOIDC url_Parse auth listers existingConfig"
    using assms(1-5)
    by (simp add: ObserveExternalOIDC_def AuthenticationTypeOIDC_def
        AuthenticationTypeIntegratedOAuth_def AuthenticationTypeNone_def)
  then show ?thesis using o m ne by simp
qed

subsection \<open>The shape of a pass of observeExternalOIDC\<close>

lemma observeExternalOIDC_cases:
  obtains (failed) "ret (observeExternalOIDC url_Parse auth listers existingConfig) = existingConfig"
      "ret_errs (observeExternalOIDC url_Parse auth listers existingConfig) \<noteq> []"
      "recorded (observeExternalOIDC url_Parse auth listers existingConfig) = []"
  | (built) provider clientConfig vals caBundleSynced requests where
      "Spec_OIDCProviders auth = [provider]"
      "getOIDCClientForComponent auth componentName TargetNamespace = Some clientConfig"
      "observeExternalOIDC_values url_Parse provider clientConfig = (vals, [])"
      "syncCABundleIfNeeded listers provider = (caBundleSynced, None, requests)"
      "\<And>existing. observeExternalOIDC url_Parse auth listers existing =
         \<lparr>ret = Some (st_observedConfig (observeExternalOIDC_loop existing vals oidcPaths (initial_state []))),
          ret_errs = st_errs (observeExternalOIDC_loop existing vals oidcPaths (initial_state [])),
          recorded = st_events (observeExternalOIDC_loop existing vals oidcPaths (initial_state []))
            @ (if caBundleSynced
               then [Eventf eventComponentName ''ExternalOIDC CA bundle configmap synced'' []]
               else [])
            @ (if st_configChanged (observeExternalOIDC_loop existing vals oidcPaths (initial_state []))
               then [Eventf eventComponentName ''ExternalOIDC configuration changed'' []]
               else []),
          synced = requests\<rparr>"
proof (cases "length (Spec_OIDCProviders auth) = 1")
  case False
  then show ?thesis using failed by (simp add: observeExternalOIDC_def)
next
  case True
  then obtain provider where p: "Spec_OIDCProviders auth = [provider]"
    by (cases "Spec_OIDCProviders auth") auto
  show ?thesis
  proof (cases "getOIDCClientForComponent auth componentName TargetNamespace")
    case None
    then show ?thesis using failed p by (simp add: observeExternalOIDC_def)
  next
    case (Some clientConfig)
    obtain vals errs where v: "observeExternalOIDC_values url_Parse provider clientConfig = (vals, errs)"
      by (cases "observeExternalOIDC_values url_Parse provider clientConfig")
    show ?thesis
    proof (cases "errs = []")
      case False
      then show ?thesis using failed p Some v by (simp add: observeExternalOIDC_def)
    next
      case True
      obtain caBundleSynced err requests where
        s: "syncCABundleIfNeeded listers provider = (caBundleSynced, err, requests)"
        by (cases "syncCABundleIfNeeded listers provider")
      show ?thesis
      proof (cases err)
        case (Some e)
        then show ?thesis using failed p \<open>getOIDCClientForComponent auth componentName TargetNamespace = Some clientConfig\<close> v s True
          by (simp add: observeExternalOIDC_def)
      next
        case None
        show ?thesis
          using built [of provider clientConfig vals caBundleSynced requests]
            p \<open>getOIDCClientForComponent auth componentName TargetNamespace = Some clientConfig\<close> v s True None
          by (simp add: observeExternalOIDC_def Let_def initial_state_def)
      qed
    qed
  qed
qed

lemma observeExternalOIDC_built:
  assumes "Spec_OIDCProviders auth = [provider]"
    and "getOIDCClientForComponent auth componentName TargetNamespace = Some clientConfig"
    and "observeExternalOIDC_values url_Parse provider clientConfig = (vals, [])"
    and "syncCABundleIfNeeded listers provider = (caBundleSynced, None, requests)"
  shows "observeExternalOIDC url_Parse auth listers existingConfig =
         \<lparr>ret = Some (st_observedConfig (observeExternalOIDC_loop existingConfig vals oidcPaths (initial_state []))),
          ret_errs = st_errs (observeExternalOIDC_loop existingConfig vals oidcPaths (initial_state [])),
          recorded = st_events (observeExternalOIDC_loop existingConfig vals oidcPaths (initial_state []))
            @ (if caBundleSynced
               then [Eventf eventComponentName ''ExternalOIDC CA bundle configmap synced'' []]
               else [])
            @ (if st_configChanged (observeExternalOIDC_loop existingConfig vals oidcPaths (initial_state []))
               then [Eventf eventComponentName ''ExternalOIDC configuration changed'' []]
               else []),
          synced = requests\<rparr>"
  using assms by (simp add: observeExternalOIDC_def Let_def initial_state_def)

lemma settable_initial: "arguments_settable (st_observedConfig (initial_state errs))"
  by (simp add: initial_state_def arguments_settable_def)

lemma NestedSlice_empty: "NestedSlice (Some fmempty) [a, p] = ([], False, None)"
  by (simp add: NestedSlice_two)

lemma fragment_lookup:
  "NestedSlice (Some (st_observedConfig (observeExternalOIDC_loop existingConfig vals paths (initial_state errs))))
     [apiServerArgumentsPath, q]
   = (case fmlookup vals q of
        Some v \<Rightarrow> if q \<in> set paths then (v, True, None) else ([], False, None)
      | None \<Rightarrow> ([], False, None))"
  using loop_fragment [where st = "initial_state errs" and paths = paths and existingConfig = existingConfig and vals = vals, OF settable_initial]
  by (simp add: initial_state_def NestedSlice_empty split: option.splits)

lemma syncCABundleIfNeeded_requests:
  assumes "syncCABundleIfNeeded listers provider = (True, err, requests)"
  shows "requests \<noteq> []"
  using assms
  by (auto simp add: syncCABundleIfNeeded_def Let_def split: prod.splits if_splits option.splits)

lemma issuer_in_oidcPaths: "oidcIssuerURLPath \<in> set oidcPaths"
  and clientID_in_oidcPaths: "oidcClientIDPath \<in> set oidcPaths"
  and usernameClaim_in_oidcPaths: "oidcUsernameClaimPath \<in> set oidcPaths"
  and usernamePrefix_in_oidcPaths: "oidcUsernamePrefixPath \<in> set oidcPaths"
  by (simp_all add: oidcPaths_def)

lemma oidcConfigExists_nil: "oidcConfigExists None = (False, None)"
  by (simp add: oidcConfigExists_def oidcPaths_def NestedSlice_nil)

subsection \<open>The scenarios, evaluated\<close>

lemmas model_defs = ObserveExternalOIDC_def observeExternalOIDC_def observeExternalOIDC_values_def
  syncCABundleIfNeeded_def cmNeedsSync_def getOIDCClientForComponent_def
  gates_ExternalOIDC_def oidc_listers_def listers_of_def auth_OIDC_def scenario_provider_def
  stub_url_Parse_def indexer_ConfigMaps_def target_cm_def
  AuthenticationTypeOIDC_def AuthenticationTypeIntegratedOAuth_def AuthenticationTypeNone_def
  NoOpinion_def NoPrefix_def Prefix_def FeatureGateExternalOIDC_def TargetNamespace_def
  componentName_def caBundleSourceNamespace_def TargetOIDCCAConfigMapName_def
  apiServerArgumentsPath_def oidcPaths_def oidcIssuerURLPath_def oidcClientIDPath_def oidcUsernameClaimPath_def
  oidcUsernamePrefixPath_def oidcGroupsClaimPath_def oidcGroupsPrefixPath_def
  oidcRequiredClaimPath_def oidcCAFilePath_def
  NestedSlice_def NestedFieldNoCopy_def the_map_def SetNestedSlice_def Semantic_DeepEqual_def
  Let_def

lemma gates_ExternalOIDC_enabled:
  "AreInitialFeatureGatesObserved gates_ExternalOIDC"
  "CurrentFeatureGates gates_ExternalOIDC = Inr (\<lambda>gate. gate = FeatureGateExternalOIDC)"
  by (simp_all add: gates_ExternalOIDC_def)

lemma scenario_get:
  "AuthConfigLister_Get (oidc_listers prefixPolicy clientID caName cms) ''cluster''
     = Inr (auth_OIDC (scenario_provider prefixPolicy clientID caName))"
  by (simp add: oidc_listers_def listers_of_def)

lemma scenario_client:
  "getOIDCClientForComponent (auth_OIDC (scenario_provider prefixPolicy clientID caName))
     componentName TargetNamespace
   = Some \<lparr>ComponentName = ''kube-apiserver'', ComponentNamespace = ''openshift-kube-apiserver'',
            ClientID = clientID\<rparr>"
  by (simp add: model_defs)

lemma scenario_sync:
  "fst (snd (syncCABundleIfNeeded (oidc_listers prefixPolicy clientID caName cms) provider)) = None"
  by (simp add: syncCABundleIfNeeded_def oidc_listers_def listers_of_def Let_def split: prod.splits)

lemma scenario_values_no_errors:
  "snd (observeExternalOIDC_values stub_url_Parse (scenario_provider NoOpinion ''abc'' caName)
          \<lparr>ComponentName = ''kube-apiserver'', ComponentNamespace = ''openshift-kube-apiserver'',
            ClientID = ''abc''\<rparr>) = []"
  by (simp add: values_closed(1) model_defs)

theorem empty_client_id_witness:
  "ret (ObserveExternalOIDC stub_url_Parse gates_ExternalOIDC (oidc_listers NoOpinion [] [] [])
          (Some oidc_config)) = Some oidc_config
   \<and> Errorf ''OIDC client ID not set'' []
       \<in> set (ret_errs (ObserveExternalOIDC stub_url_Parse gates_ExternalOIDC
                  (oidc_listers NoOpinion [] [] []) (Some oidc_config)))"
proof -
  have g: "(\<lambda>gate. gate = FeatureGateExternalOIDC) FeatureGateExternalOIDC" by simp
  have a: "Spec_Type (auth_OIDC (scenario_provider NoOpinion [] [])) = AuthenticationTypeOIDC"
    "length (Spec_OIDCProviders (auth_OIDC (scenario_provider NoOpinion [] []))) = 1"
    by (simp_all add: auth_OIDC_def)
  have c: "ClientID \<lparr>ComponentName = ''kube-apiserver'', ComponentNamespace = ''openshift-kube-apiserver'',
            ClientID = []\<rparr> = []"
    by simp
  show ?thesis
    using empty_client_id
      [where featureGateAccessor = gates_ExternalOIDC
         and featureGates = "\<lambda>gate. gate = FeatureGateExternalOIDC"
         and listers = "oidc_listers NoOpinion [] [] []"
         and url_Parse = stub_url_Parse and existingConfig = "Some oidc_config",
       OF gates_ExternalOIDC_enabled g scenario_get a scenario_client c]
    by simp
qed

subsection \<open>A second pass in the same state\<close>

lemma observeExternalOIDC_second_pass:
  assumes "ret_errs (observeExternalOIDC url_Parse auth listers existingConfig) = []"
  shows "ret (observeExternalOIDC url_Parse auth listers
                (ret (observeExternalOIDC url_Parse auth listers existingConfig)))
           = ret (observeExternalOIDC url_Parse auth listers existingConfig)
       \<and> ret_errs (observeExternalOIDC url_Parse auth listers
                (ret (observeExternalOIDC url_Parse auth listers existingConfig))) = []
       \<and> (recorded (observeExternalOIDC url_Parse auth listers
                (ret (observeExternalOIDC url_Parse auth listers existingConfig))) = []
          \<or> (recorded (observeExternalOIDC url_Parse auth listers
                (ret (observeExternalOIDC url_Parse auth listers existingConfig)))
                = [Eventf eventComponentName ''ExternalOIDC CA bundle configmap synced'' []]
              \<and> synced (observeExternalOIDC url_Parse auth listers
                (ret (observeExternalOIDC url_Parse auth listers existingConfig))) \<noteq> []))"
proof (cases rule: observeExternalOIDC_cases [of url_Parse auth listers existingConfig])
  case failed
  then show ?thesis using assms by simp
next
  case (built provider clientConfig vals caBundleSynced requests)
  let ?st1 = "observeExternalOIDC_loop existingConfig vals oidcPaths (initial_state [])"
  let ?e = "Some (st_observedConfig ?st1)"
  let ?st2 = "observeExternalOIDC_loop ?e vals oidcPaths (initial_state [])"
  have r1: "ret (observeExternalOIDC url_Parse auth listers existingConfig) = ?e"
    by (simp add: built(5))
  have look: "NestedSlice ?e [apiServerArgumentsPath, p]
                = (case fmlookup vals p of Some v \<Rightarrow> (v, True, None) | None \<Rightarrow> ([], False, None))"
    if "p \<in> set oidcPaths" for p
    using that fragment_lookup [of existingConfig vals oidcPaths "[]" p] by (simp split: option.splits)
  have o: "st_observedConfig ?st2 = st_observedConfig ?st1"
    by (rule loop_fragment_indep [OF settable_initial refl])
  have e: "st_errs ?st2 = []"
    using loop_readable [where st = "initial_state []" and paths = oidcPaths and existingConfig = ?e and vals = vals, OF settable_initial] look
    by (simp add: initial_state_def split: option.splits)
  have c: "\<not> st_configChanged ?st2"
    using loop_unchanged [where st = "initial_state []" and paths = oidcPaths and existingConfig = ?e and vals = vals, OF settable_initial] look
    by (simp add: initial_state_def split: option.splits)
  have ev: "st_events ?st2 = []"
    using loop_fragment [where st = "initial_state []" and paths = oidcPaths and existingConfig = ?e and vals = vals, OF settable_initial] by (simp add: initial_state_def)
  have rq: "requests \<noteq> []" if "caBundleSynced"
    using that built(4) syncCABundleIfNeeded_requests by auto
  show ?thesis
    unfolding r1 using o e c ev rq by (simp add: built(5))
qed

text \<open>
  C1, as the code has it. When a call of \<open>ObserveExternalOIDC\<close> returns no
  error, a second call in the same state of the cluster (the same feature gates,
  authentication resource, config maps and syncer), with the tree of the first call as
  the existing config, returns the same tree and no error, and detects no change: it
  records no event, or only the event "ExternalOIDC CA bundle configmap synced", and
  that one only when it has issued a mirror request again.
\<close>

theorem second_pass:
  assumes "ret_errs (ObserveExternalOIDC url_Parse featureGateAccessor listers existingConfig) = []"
  shows "ret (ObserveExternalOIDC url_Parse featureGateAccessor listers
                (ret (ObserveExternalOIDC url_Parse featureGateAccessor listers existingConfig)))
           = ret (ObserveExternalOIDC url_Parse featureGateAccessor listers existingConfig)
       \<and> ret_errs (ObserveExternalOIDC url_Parse featureGateAccessor listers
                (ret (ObserveExternalOIDC url_Parse featureGateAccessor listers existingConfig))) = []
       \<and> (recorded (ObserveExternalOIDC url_Parse featureGateAccessor listers
                (ret (ObserveExternalOIDC url_Parse featureGateAccessor listers existingConfig))) = []
          \<or> (recorded (ObserveExternalOIDC url_Parse featureGateAccessor listers
                (ret (ObserveExternalOIDC url_Parse featureGateAccessor listers existingConfig)))
                = [Eventf eventComponentName ''ExternalOIDC CA bundle configmap synced'' []]
              \<and> synced (ObserveExternalOIDC url_Parse featureGateAccessor listers
                (ret (ObserveExternalOIDC url_Parse featureGateAccessor listers existingConfig))) \<noteq> []))"
proof (cases "AreInitialFeatureGatesObserved featureGateAccessor")
  case False
  then show ?thesis by (simp add: ObserveExternalOIDC_def)
next
  case observed: True
  show ?thesis
  proof (cases "CurrentFeatureGates featureGateAccessor")
    case (Inl err)
    then show ?thesis using assms observed by (simp add: ObserveExternalOIDC_def)
  next
    case (Inr featureGates)
    show ?thesis
    proof (cases "featureGates FeatureGateExternalOIDC")
      case False
      then show ?thesis using observed Inr by (simp add: ObserveExternalOIDC_def)
    next
      case enabled: True
      show ?thesis
      proof (cases "AuthConfigLister_Get listers ''cluster''")
        case (Inl err)
        then show ?thesis using assms observed Inr enabled
          by (cases "IsNotFound err") (simp_all add: ObserveExternalOIDC_def)
      next
        case auth: (Inr auth)
        consider (reset) "Spec_Type auth = AuthenticationTypeIntegratedOAuth
                       \<or> Spec_Type auth = AuthenticationTypeNone \<or> Spec_Type auth = []"
          | (oidc) "\<not> (Spec_Type auth = AuthenticationTypeIntegratedOAuth
                       \<or> Spec_Type auth = AuthenticationTypeNone \<or> Spec_Type auth = [])"
                   "Spec_Type auth = AuthenticationTypeOIDC"
          | (invalid) "\<not> (Spec_Type auth = AuthenticationTypeIntegratedOAuth
                       \<or> Spec_Type auth = AuthenticationTypeNone \<or> Spec_Type auth = [])"
                   "Spec_Type auth \<noteq> AuthenticationTypeOIDC"
          by blast
        then show ?thesis
        proof cases
          case reset
          have eq: "ObserveExternalOIDC url_Parse featureGateAccessor listers existing =
              (case SyncConfigMap listers \<lparr>Namespace = TargetNamespace, Name = TargetOIDCCAConfigMapName\<rparr>
                      \<lparr>Namespace = [], Name = []\<rparr> of
                 Some err \<Rightarrow>
                   \<lparr>ret = existing, ret_errs = [err], recorded = [],
                    synced = [(\<lparr>Namespace = TargetNamespace, Name = TargetOIDCCAConfigMapName\<rparr>,
                               \<lparr>Namespace = [], Name = []\<rparr>)]\<rparr>
               | None \<Rightarrow>
                   (case oidcConfigExists existing of
                      (oidcAlreadyExists, Some err) \<Rightarrow>
                        \<lparr>ret = existing, ret_errs = [err], recorded = [],
                         synced = [(\<lparr>Namespace = TargetNamespace, Name = TargetOIDCCAConfigMapName\<rparr>,
                                    \<lparr>Namespace = [], Name = []\<rparr>)]\<rparr>
                    | (oidcAlreadyExists, None) \<Rightarrow>
                        \<lparr>ret = None, ret_errs = [],
                         recorded = (if oidcAlreadyExists
                                     then [Eventf eventComponentName ''Removed ExternalOIDC configuration'' []]
                                     else []),
                         synced = [(\<lparr>Namespace = TargetNamespace, Name = TargetOIDCCAConfigMapName\<rparr>,
                                    \<lparr>Namespace = [], Name = []\<rparr>)]\<rparr>))" for existing
            using observed Inr enabled auth reset by (simp add: ObserveExternalOIDC_def Let_def)
          show ?thesis
          proof (cases "SyncConfigMap listers \<lparr>Namespace = TargetNamespace, Name = TargetOIDCCAConfigMapName\<rparr>
                      \<lparr>Namespace = [], Name = []\<rparr>")
            case (Some err)
            then show ?thesis using assms by (simp add: eq)
          next
            case None
            obtain b e where x: "oidcConfigExists existingConfig = (b, e)"
              by (cases "oidcConfigExists existingConfig")
            show ?thesis
            proof (cases e)
              case (Some err)
              then show ?thesis using assms None x by (simp add: eq)
            next
              case n: None
              have "ret (ObserveExternalOIDC url_Parse featureGateAccessor listers existingConfig) = None"
                using None x n by (simp add: eq)
              then show ?thesis using None by (simp add: eq oidcConfigExists_nil)
            qed
          qed
        next
          case oidc
          have eq: "ObserveExternalOIDC url_Parse featureGateAccessor listers existing
                      = observeExternalOIDC url_Parse auth listers existing" for existing
            using observed Inr enabled auth oidc by (simp add: ObserveExternalOIDC_def)
          show ?thesis
            using assms observeExternalOIDC_second_pass [of url_Parse auth listers existingConfig]
            unfolding eq by simp
        next
          case invalid
          then show ?thesis using assms observed Inr enabled auth
            by (simp add: ObserveExternalOIDC_def)
        qed
      qed
    qed
  qed
qed

lemma first_pass_no_errors:
  "ret_errs (ObserveExternalOIDC stub_url_Parse gates_ExternalOIDC (oidc_listers NoOpinion ''abc'' [] []) None) = []"
  by (simp add: model_defs)

theorem second_pass_witness:
  "ret (ObserveExternalOIDC stub_url_Parse gates_ExternalOIDC (oidc_listers NoOpinion ''abc'' [] [])
         (ret (ObserveExternalOIDC stub_url_Parse gates_ExternalOIDC (oidc_listers NoOpinion ''abc'' [] []) None)))
     = ret (ObserveExternalOIDC stub_url_Parse gates_ExternalOIDC (oidc_listers NoOpinion ''abc'' [] []) None)
   \<and> ret_errs (ObserveExternalOIDC stub_url_Parse gates_ExternalOIDC (oidc_listers NoOpinion ''abc'' [] [])
         (ret (ObserveExternalOIDC stub_url_Parse gates_ExternalOIDC (oidc_listers NoOpinion ''abc'' [] []) None)))
     = []"
  using second_pass [OF first_pass_no_errors] by simp

text \<open>
  The claim as it was stated fails on its last part. The config maps are the same
  in the second call, so a target that is missing (or differs) in the first call still
  is in the second: the mirror request is issued again and its event recorded again.
\<close>

theorem second_pass_syncs_again:
  "ret_errs (ObserveExternalOIDC stub_url_Parse gates_ExternalOIDC (oidc_listers NoOpinion ''abc'' [] []) None) = []
   \<and> recorded (ObserveExternalOIDC stub_url_Parse gates_ExternalOIDC (oidc_listers NoOpinion ''abc'' [] [])
         (ret (ObserveExternalOIDC stub_url_Parse gates_ExternalOIDC (oidc_listers NoOpinion ''abc'' [] []) None)))
     = [Eventf eventComponentName ''ExternalOIDC CA bundle configmap synced'' []]"
  by (simp add: model_defs)

subsection \<open>Errors and the tree returned with them\<close>







subsection \<open>Errors of the lookups for the mirror decision\<close>

text \<open>
  C6, as the code has it. An error of a lookup for the mirror decision of the CA
  bundle (of the target, unless it is not-found; of a named source, not-found
  included) is returned by \<open>cmNeedsSync\<close> as it is, with needsSync false. But
  \<open>syncCABundleIfNeeded\<close> does not return it: it issues the mirror request anyway.
  The pass of \<open>observeExternalOIDC\<close> (with one provider, its client config and
  fields without errors) returns the existing tree and an error only when that mirror
  request fails, and then the error of the request; when the request succeeds, it
  returns a fragment (with the issuer URL of the provider) and records the event of
  the sync.
\<close>

theorem lookup_error_syncs_anyway:
  assumes "(ConfigMapLister_Get listers TargetNamespace TargetOIDCCAConfigMapName = Inl err
            \<and> \<not> IsNotFound err)
         \<or> (ConfigMapLister_Get listers TargetNamespace TargetOIDCCAConfigMapName = Inr existingCM
            \<and> Issuer_CertificateAuthority_Name provider \<noteq> []
            \<and> ConfigMapLister_Get listers caBundleSourceNamespace
                 (Issuer_CertificateAuthority_Name provider) = Inl err)"
    and "Spec_OIDCProviders auth = [provider]"
    and "getOIDCClientForComponent auth componentName TargetNamespace = Some clientConfig"
    and "snd (observeExternalOIDC_values url_Parse provider clientConfig) = []"
    and "target = \<lparr>Namespace = TargetNamespace, Name = TargetOIDCCAConfigMapName\<rparr>"
    and "source = \<lparr>Namespace = (if Issuer_CertificateAuthority_Name provider = [] then []
                                 else caBundleSourceNamespace),
                    Name = Issuer_CertificateAuthority_Name provider\<rparr>"
  shows "cmNeedsSync listers TargetOIDCCAConfigMapName TargetNamespace
           (Issuer_CertificateAuthority_Name provider) caBundleSourceNamespace ''ca-bundle.crt''
           = (False, Some err)
       \<and> syncCABundleIfNeeded listers provider
           = (case SyncConfigMap listers target source of
                Some syncErr \<Rightarrow> (False, Some syncErr, [(target, source)])
              | None \<Rightarrow> (True, None, [(target, source)]))
       \<and> synced (observeExternalOIDC url_Parse auth listers existingConfig) = [(target, source)]
       \<and> (case SyncConfigMap listers target source of
             Some syncErr \<Rightarrow>
               observeExternalOIDC url_Parse auth listers existingConfig
                 = \<lparr>ret = existingConfig, ret_errs = [syncErr], recorded = [],
                    synced = [(target, source)]\<rparr>
           | None \<Rightarrow>
               (\<exists>fragment. ret (observeExternalOIDC url_Parse auth listers existingConfig) = Some fragment)
               \<and> NestedSlice (ret (observeExternalOIDC url_Parse auth listers existingConfig))
                    [apiServerArgumentsPath, oidcIssuerURLPath]
                    = ([JStr (Issuer_URL provider)], True, None)
               \<and> Eventf eventComponentName ''ExternalOIDC CA bundle configmap synced'' []
                    \<in> set (recorded (observeExternalOIDC url_Parse auth listers existingConfig)))"
proof -
  have n: "cmNeedsSync listers TargetOIDCCAConfigMapName TargetNamespace
           (Issuer_CertificateAuthority_Name provider) caBundleSourceNamespace ''ca-bundle.crt''
           = (False, Some err)"
    using assms(1) by (auto simp add: cmNeedsSync_def)
  have s: "syncCABundleIfNeeded listers provider
           = (case SyncConfigMap listers target source of
                Some syncErr \<Rightarrow> (False, Some syncErr, [(target, source)])
              | None \<Rightarrow> (True, None, [(target, source)]))"
    unfolding assms(5,6) by (simp add: syncCABundleIfNeeded_def n Let_def)
  obtain vals where v: "observeExternalOIDC_values url_Parse provider clientConfig = (vals, [])"
    using assms(4) by (cases "observeExternalOIDC_values url_Parse provider clientConfig") simp
  have i: "fmlookup vals oidcIssuerURLPath = Some [JStr (Issuer_URL provider)]"
  proof -
    have "(case url_Parse (Issuer_URL provider) of
              Inl err \<Rightarrow> [err]
            | Inr issuerURL \<Rightarrow>
                if Scheme issuerURL \<noteq> ''https''
                then [Errorf ''https is required for provider URL'' []] else []) = []"
      using assms(4) by (simp add: values_closed(1))
    then show ?thesis
      using values_closed(2) [of url_Parse provider clientConfig] v
      by (auto split: sum.splits if_splits)
  qed
  show ?thesis
  proof (cases "SyncConfigMap listers target source")
    case (Some syncErr)
    then show ?thesis
      using n s assms(2,3) v by (simp add: observeExternalOIDC_def)
  next
    case None
    have b: "observeExternalOIDC url_Parse auth listers existingConfig =
         \<lparr>ret = Some (st_observedConfig (observeExternalOIDC_loop existingConfig vals oidcPaths (initial_state []))),
          ret_errs = st_errs (observeExternalOIDC_loop existingConfig vals oidcPaths (initial_state [])),
          recorded = st_events (observeExternalOIDC_loop existingConfig vals oidcPaths (initial_state []))
            @ (if True
               then [Eventf eventComponentName ''ExternalOIDC CA bundle configmap synced'' []]
               else [])
            @ (if st_configChanged (observeExternalOIDC_loop existingConfig vals oidcPaths (initial_state []))
               then [Eventf eventComponentName ''ExternalOIDC configuration changed'' []]
               else []),
          synced = [(target, source)]\<rparr>"
      using s None by (intro observeExternalOIDC_built [OF assms(2,3) v]) simp
    show ?thesis
      using n s None i fragment_lookup [of existingConfig vals oidcPaths "[]" oidcIssuerURLPath]
      by (simp add: b issuer_in_oidcPaths)
  qed
qed

lemma source_not_found:
  "ConfigMapLister_Get (oidc_listers NoOpinion ''abc'' ''oidc-ca-bundle'' [target_cm])
      TargetNamespace TargetOIDCCAConfigMapName = Inr target_cm
   \<and> Issuer_CertificateAuthority_Name (scenario_provider NoOpinion ''abc'' ''oidc-ca-bundle'') \<noteq> []
   \<and> ConfigMapLister_Get (oidc_listers NoOpinion ''abc'' ''oidc-ca-bundle'' [target_cm])
        caBundleSourceNamespace
        (Issuer_CertificateAuthority_Name (scenario_provider NoOpinion ''abc'' ''oidc-ca-bundle''))
      = Inl (StatusNotFound ''oidc-ca-bundle'')"
  by (simp add: model_defs)

theorem lookup_error_syncs_anyway_witness:
  "cmNeedsSync (oidc_listers NoOpinion ''abc'' ''oidc-ca-bundle'' [target_cm])
     TargetOIDCCAConfigMapName TargetNamespace ''oidc-ca-bundle'' caBundleSourceNamespace ''ca-bundle.crt''
     = (False, Some (StatusNotFound ''oidc-ca-bundle''))
   \<and> synced (observeExternalOIDC stub_url_Parse (auth_OIDC (scenario_provider NoOpinion ''abc'' ''oidc-ca-bundle''))
        (oidc_listers NoOpinion ''abc'' ''oidc-ca-bundle'' [target_cm]) None)
     = [(\<lparr>Namespace = TargetNamespace, Name = TargetOIDCCAConfigMapName\<rparr>,
         \<lparr>Namespace = caBundleSourceNamespace, Name = ''oidc-ca-bundle''\<rparr>)]"
  using lookup_error_syncs_anyway
          [where listers = "oidc_listers NoOpinion ''abc'' ''oidc-ca-bundle'' [target_cm]"
             and provider = "scenario_provider NoOpinion ''abc'' ''oidc-ca-bundle''"
             and auth = "auth_OIDC (scenario_provider NoOpinion ''abc'' ''oidc-ca-bundle'')"
             and url_Parse = stub_url_Parse and existingConfig = None
             and err = "StatusNotFound ''oidc-ca-bundle''" and existingCM = target_cm,
           OF disjI2 [OF source_not_found] _ scenario_client scenario_values_no_errors refl refl]
  by (simp add: auth_OIDC_def scenario_provider_def)

text \<open>
  The claim as it was stated fails: with a named source config map that is not found,
  the pass returns no error, returns a fragment and not the existing (nil) tree, and
  has issued the mirror request from the named source.
\<close>

theorem source_not_found_still_syncs:
  "ConfigMapLister_Get (oidc_listers NoOpinion ''abc'' ''oidc-ca-bundle'' [target_cm])
      caBundleSourceNamespace ''oidc-ca-bundle'' = Inl (StatusNotFound ''oidc-ca-bundle'')
   \<and> ret_errs (ObserveExternalOIDC stub_url_Parse gates_ExternalOIDC
        (oidc_listers NoOpinion ''abc'' ''oidc-ca-bundle'' [target_cm]) None) = []
   \<and> ret (ObserveExternalOIDC stub_url_Parse gates_ExternalOIDC
        (oidc_listers NoOpinion ''abc'' ''oidc-ca-bundle'' [target_cm]) None) \<noteq> None
   \<and> synced (ObserveExternalOIDC stub_url_Parse gates_ExternalOIDC
        (oidc_listers NoOpinion ''abc'' ''oidc-ca-bundle'' [target_cm]) None)
     = [(\<lparr>Namespace = ''openshift-kube-apiserver'', Name = ''oidc-serving-ca-bundle''\<rparr>,
         \<lparr>Namespace = ''openshift-config'', Name = ''oidc-ca-bundle''\<rparr>)]"
  by (simp add: model_defs)

subsection \<open>The mapping of the username prefix policy\<close>

text \<open>
  C7. With the feature gate enabled, for an authentication resource of type OIDC whose
  one provider has the issuer https://idp.example.com (which parses, with the scheme
  https), the client ID abc for the component and the username claim sub, whose claim
  validation rules give no error and whose mirror request does not fail: the fragment
  that \<open>ObserveExternalOIDC\<close> returns has oidc-issuer-url =
  [https://idp.example.com], oidc-client-id = [abc] and oidc-username-claim = [sub]
  under apiServerArguments; when the username prefix policy is NoOpinion it has no
  oidc-username-prefix, and when the policy is NoPrefix it has oidc-username-prefix =
  [-].
\<close>

theorem username_prefix_mapping:
  assumes "AreInitialFeatureGatesObserved featureGateAccessor"
    and "CurrentFeatureGates featureGateAccessor = Inr featureGates"
    and "featureGates FeatureGateExternalOIDC"
    and "AuthConfigLister_Get listers ''cluster'' = Inr auth"
    and "Spec_Type auth = AuthenticationTypeOIDC"
    and "Spec_OIDCProviders auth = [provider]"
    and "Issuer_URL provider = ''https://idp.example.com''"
    and "url_Parse ''https://idp.example.com'' = Inr issuerURL"
    and "Scheme issuerURL = ''https''"
    and "getOIDCClientForComponent auth componentName TargetNamespace = Some clientConfig"
    and "ClientID clientConfig = ''abc''"
    and "ClaimMappings_Username_Claim provider = ''sub''"
    and "ClaimMappings_Username_PrefixPolicy provider = NoOpinion
         \<or> ClaimMappings_Username_PrefixPolicy provider = NoPrefix"
    and "snd (claimValidationRules_loop 0 (ClaimValidationRules provider)) = []"
    and "fst (snd (syncCABundleIfNeeded listers provider)) = None"
  shows "NestedSlice (ret (ObserveExternalOIDC url_Parse featureGateAccessor listers existingConfig))
           [apiServerArgumentsPath, oidcIssuerURLPath] = ([JStr ''https://idp.example.com''], True, None)
       \<and> NestedSlice (ret (ObserveExternalOIDC url_Parse featureGateAccessor listers existingConfig))
           [apiServerArgumentsPath, oidcClientIDPath] = ([JStr ''abc''], True, None)
       \<and> NestedSlice (ret (ObserveExternalOIDC url_Parse featureGateAccessor listers existingConfig))
           [apiServerArgumentsPath, oidcUsernameClaimPath] = ([JStr ''sub''], True, None)
       \<and> NestedSlice (ret (ObserveExternalOIDC url_Parse featureGateAccessor listers existingConfig))
           [apiServerArgumentsPath, oidcUsernamePrefixPath]
           = (if ClaimMappings_Username_PrefixPolicy provider = NoPrefix
              then ([JStr ''-''], True, None) else ([], False, None))"
proof -
  obtain vals errs where v: "observeExternalOIDC_values url_Parse provider clientConfig = (vals, errs)"
    by (cases "observeExternalOIDC_values url_Parse provider clientConfig")
  have np: "ClaimMappings_Username_PrefixPolicy provider \<noteq> Prefix"
    using assms(13) by (auto simp add: NoOpinion_def NoPrefix_def Prefix_def)
  have "errs = []"
    using values_closed(1) [of url_Parse provider clientConfig] v assms(7,8,9,11,14) np
    by simp
  then have v': "observeExternalOIDC_values url_Parse provider clientConfig = (vals, [])"
    using v by simp
  have l: "fmlookup vals oidcIssuerURLPath = Some [JStr ''https://idp.example.com'']"
    "fmlookup vals oidcClientIDPath = Some [JStr ''abc'']"
    "fmlookup vals oidcUsernameClaimPath = Some [JStr ''sub'']"
    "fmlookup vals oidcUsernamePrefixPath
       = (if ClaimMappings_Username_PrefixPolicy provider = NoPrefix then Some [JStr ''-''] else None)"
    using values_closed(2-5) [of url_Parse provider clientConfig] v assms(7,8,9,11,12,13)
    by (auto simp add: NoOpinion_def NoPrefix_def)
  obtain caBundleSynced requests where
    s: "syncCABundleIfNeeded listers provider = (caBundleSynced, None, requests)"
    using assms(15) by (cases "syncCABundleIfNeeded listers provider") auto
  have "ObserveExternalOIDC url_Parse featureGateAccessor listers existingConfig
          = observeExternalOIDC url_Parse auth listers existingConfig"
    using assms(1-5)
    by (simp add: ObserveExternalOIDC_def AuthenticationTypeOIDC_def
        AuthenticationTypeIntegratedOAuth_def AuthenticationTypeNone_def)
  then have r: "ret (ObserveExternalOIDC url_Parse featureGateAccessor listers existingConfig)
          = Some (st_observedConfig (observeExternalOIDC_loop existingConfig vals oidcPaths (initial_state [])))"
    using observeExternalOIDC_built [OF assms(6,10) v' s, of existingConfig] by simp
  show ?thesis
    unfolding r fragment_lookup
    by (simp add: l issuer_in_oidcPaths clientID_in_oidcPaths usernameClaim_in_oidcPaths
        usernamePrefix_in_oidcPaths)
qed

theorem username_prefix_mapping_witness:
  "NestedSlice (ret (ObserveExternalOIDC stub_url_Parse gates_ExternalOIDC
       (oidc_listers NoOpinion ''abc'' [] []) None))
     [apiServerArgumentsPath, oidcIssuerURLPath] = ([JStr ''https://idp.example.com''], True, None)
   \<and> NestedSlice (ret (ObserveExternalOIDC stub_url_Parse gates_ExternalOIDC
       (oidc_listers NoOpinion ''abc'' [] []) None))
     [apiServerArgumentsPath, oidcClientIDPath] = ([JStr ''abc''], True, None)
   \<and> NestedSlice (ret (ObserveExternalOIDC stub_url_Parse gates_ExternalOIDC
       (oidc_listers NoOpinion ''abc'' [] []) None))
     [apiServerArgumentsPath, oidcUsernameClaimPath] = ([JStr ''sub''], True, None)
   \<and> NestedSlice (ret (ObserveExternalOIDC stub_url_Parse gates_ExternalOIDC
       (oidc_listers NoOpinion ''abc'' [] []) None))
     [apiServerArgumentsPath, oidcUsernamePrefixPath] = ([], False, None)
   \<and> NestedSlice (ret (ObserveExternalOIDC stub_url_Parse gates_ExternalOIDC
       (oidc_listers NoPrefix ''abc'' [] []) None))
     [apiServerArgumentsPath, oidcUsernamePrefixPath] = ([JStr ''-''], True, None)"
proof -
  have u: "stub_url_Parse ''https://idp.example.com'' = Inr \<lparr>Scheme = ''https''\<rparr>"
    by (simp add: stub_url_Parse_def)
  have a: "Spec_Type (auth_OIDC p) = AuthenticationTypeOIDC" "Spec_OIDCProviders (auth_OIDC p) = [p]" for p
    by (simp_all add: auth_OIDC_def)
  have p: "Issuer_URL (scenario_provider x ''abc'' []) = ''https://idp.example.com''"
    "ClaimMappings_Username_Claim (scenario_provider x ''abc'' []) = ''sub''"
    "ClaimMappings_Username_PrefixPolicy (scenario_provider x ''abc'' []) = x"
    "snd (claimValidationRules_loop 0 (ClaimValidationRules (scenario_provider x ''abc'' []))) = []" for x
    by (simp_all add: scenario_provider_def)
  have A: "ClaimMappings_Username_PrefixPolicy (scenario_provider NoOpinion ''abc'' []) = NoOpinion
         \<or> ClaimMappings_Username_PrefixPolicy (scenario_provider NoOpinion ''abc'' []) = NoPrefix"
    and B: "ClaimMappings_Username_PrefixPolicy (scenario_provider NoPrefix ''abc'' []) = NoOpinion
         \<or> ClaimMappings_Username_PrefixPolicy (scenario_provider NoPrefix ''abc'' []) = NoPrefix"
    by (simp_all add: p(3))
  have ne: "NoOpinion \<noteq> NoPrefix" by (simp add: NoOpinion_def NoPrefix_def)
  have g: "(\<lambda>gate. gate = FeatureGateExternalOIDC) FeatureGateExternalOIDC" by simp
  have c: "ClientID \<lparr>ComponentName = ''kube-apiserver'', ComponentNamespace = ''openshift-kube-apiserver'',
            ClientID = ''abc''\<rparr> = ''abc''" and h: "Scheme \<lparr>Scheme = ''https''\<rparr> = ''https''"
    by simp_all
  note A' = username_prefix_mapping
      [where featureGateAccessor = gates_ExternalOIDC
         and featureGates = "\<lambda>gate. gate = FeatureGateExternalOIDC"
         and listers = "oidc_listers NoOpinion ''abc'' [] []"
         and auth = "auth_OIDC (scenario_provider NoOpinion ''abc'' [])"
         and provider = "scenario_provider NoOpinion ''abc'' []"
         and url_Parse = stub_url_Parse and existingConfig = None,
       OF gates_ExternalOIDC_enabled g scenario_get a(1) a(2) p(1) u h scenario_client c p(2) A p(4)
          scenario_sync]
  note B' = username_prefix_mapping
      [where featureGateAccessor = gates_ExternalOIDC
         and featureGates = "\<lambda>gate. gate = FeatureGateExternalOIDC"
         and listers = "oidc_listers NoPrefix ''abc'' [] []"
         and auth = "auth_OIDC (scenario_provider NoPrefix ''abc'' [])"
         and provider = "scenario_provider NoPrefix ''abc'' []"
         and url_Parse = stub_url_Parse and existingConfig = None,
       OF gates_ExternalOIDC_enabled g scenario_get a(1) a(2) p(1) u h scenario_client c p(2) B p(4)
          scenario_sync]
  show ?thesis
    using A' B' by (simp add: p(3) ne)
qed

subsection \<open>The disabled admission plugins\<close>

lemma NestedFieldNoCopy_two:
  "NestedFieldNoCopy (Some m) [a, p] =
     (case fmlookup m a of
        None \<Rightarrow> (JNull, False, None)
      | Some (JMap args) \<Rightarrow>
          (case fmlookup args p of None \<Rightarrow> (JNull, False, None) | Some x \<Rightarrow> (x, True, None))
      | Some JNull \<Rightarrow> (JNull, False, None)
      | Some x \<Rightarrow> (JNull, False, Some (AccessorError [a, p] ''map[string]interface{}'')))"
  by (simp add: NestedFieldNoCopy_def the_map_def split: option.splits jv.splits)


lemma strings_of_map_JStr: "strings_of (map JStr ss) = Some ss"
  by (induction ss) simp_all

lemma NestedStringSlice_set:
  "NestedStringSlice
     (Some (fmupd ''apiServerArguments''
              (JMap (fmupd ''disable-admission-plugins'' (JSlice (map JStr ss)) fmempty)) fmempty))
     disableAdmissionPluginsPath = (ss, True, None)"
  by (simp add: NestedStringSlice_def NestedFieldNoCopy_two disableAdmissionPluginsPath_def
      strings_of_map_JStr)

lemma Pruned_set:
  assumes "ss \<noteq> []"
  shows "Pruned
     (Some (fmupd ''apiServerArguments''
              (JMap (fmupd ''disable-admission-plugins'' (JSlice (map JStr ss)) fmempty)) fmempty))
     disableAdmissionPluginsPath
   = Some (fmupd ''apiServerArguments''
              (JMap (fmupd ''disable-admission-plugins'' (JSlice (map JStr ss)) fmempty)) fmempty)"
  using assms
  by (simp add: Pruned_def NestedFieldNoCopy_two disableAdmissionPluginsPath_def is_empty_container_def)

lemma sets_List_union:
  "set (sets_List (sets_Insert (sets_NewString disabled) rbrPlugins)) = set disabled \<union> set rbrPlugins"
  "sorted (sets_List (sets_Insert (sets_NewString disabled) rbrPlugins))"
  "distinct (sets_List (sets_Insert (sets_NewString disabled) rbrPlugins))"
  "sets_List (sets_Insert (sets_NewString disabled) rbrPlugins) \<noteq> []"
proof -
  have f: "finite (set disabled \<union> set rbrPlugins)" by simp
  show "set (sets_List (sets_Insert (sets_NewString disabled) rbrPlugins)) = set disabled \<union> set rbrPlugins"
    by (simp add: sets_List_def sets_Insert_def sets_NewString_def)
  then have "set (sets_List (sets_Insert (sets_NewString disabled) rbrPlugins)) \<noteq> {}"
    by (simp add: rbrPlugins_def)
  then show "sets_List (sets_Insert (sets_NewString disabled) rbrPlugins) \<noteq> []"
    by (simp only: set_empty not_False_eq_True)
  show "sorted (sets_List (sets_Insert (sets_NewString disabled) rbrPlugins))"
    by (simp add: sets_List_def)
  show "distinct (sets_List (sets_Insert (sets_NewString disabled) rbrPlugins))"
    by (simp add: sets_List_def)
qed

text \<open>
  C9. For every existing config whose disable-admission-plugins is a sequence of
  strings (or is absent), when the authentication resource is found and its type is
  neither IntegratedOAuth nor empty, the sequence that
  \<open>ObserveRoleBindingRestrictionPlugins\<close> emits at
  apiServerArguments.disable-admission-plugins holds exactly the entries of the existing
  sequence and the two RoleBindingRestriction plugins: no existing entry is removed.
  The sequence is sorted and without duplicates, and no error is returned.
\<close>

theorem disabled_plugins_union:
  assumes "AuthConfigLister_Get listers ''cluster'' = Inr auth"
    and "Spec_Type auth \<noteq> AuthenticationTypeIntegratedOAuth"
    and "Spec_Type auth \<noteq> []"
    and "NestedStringSlice existingConfig disableAdmissionPluginsPath = (disabled, found, None)"
  shows "\<exists>emitted.
           NestedStringSlice (ret (ObserveRoleBindingRestrictionPlugins listers existingConfig))
             disableAdmissionPluginsPath = (emitted, True, None)
           \<and> set emitted = set disabled \<union> set rbrPlugins
           \<and> set disabled \<subseteq> set emitted
           \<and> sorted emitted \<and> distinct emitted
           \<and> ret_errs (ObserveRoleBindingRestrictionPlugins listers existingConfig) = []"
proof -
  let ?l = "sets_List (sets_Insert (sets_NewString disabled) rbrPlugins)"
  have "ObserveRoleBindingRestrictionPlugins listers existingConfig =
          \<lparr>ret = Pruned (Some (fmupd ''apiServerArguments''
                     (JMap (fmupd ''disable-admission-plugins'' (JSlice (map JStr ?l)) fmempty)) fmempty))
                   disableAdmissionPluginsPath,
           ret_errs = [], recorded = [], synced = []\<rparr>"
    using assms
    by (simp add: ObserveRoleBindingRestrictionPlugins_def Let_def SetNestedStringSlice_def
        disableAdmissionPluginsPath_def)
  then have "ObserveRoleBindingRestrictionPlugins listers existingConfig =
          \<lparr>ret = Some (fmupd ''apiServerArguments''
                     (JMap (fmupd ''disable-admission-plugins'' (JSlice (map JStr ?l)) fmempty)) fmempty),
           ret_errs = [], recorded = [], synced = []\<rparr>"
    by (simp add: Pruned_set sets_List_union(4))
  then show ?thesis
    using sets_List_union(1-3) [of disabled] by (simp add: NestedStringSlice_set)
qed

lemma test_config_disabled:
  "NestedStringSlice (Some (test_config ss)) disableAdmissionPluginsPath = (ss, True, None)"
  by (simp add: NestedStringSlice_def NestedFieldNoCopy_two disableAdmissionPluginsPath_def
      strings_of_map_JStr test_config_def)

theorem disabled_plugins_union_witness:
  "\<exists>emitted.
     NestedStringSlice
       (ret (ObserveRoleBindingRestrictionPlugins (listers_of (Some (auth_of_type ''OIDC'')) [])
               (Some (test_config [''off1'', ''off2'']))))
       disableAdmissionPluginsPath = (emitted, True, None)
     \<and> set emitted = set [''off1'', ''off2''] \<union> set rbrPlugins"
proof -
  have a: "AuthConfigLister_Get (listers_of (Some (auth_of_type ''OIDC'')) []) ''cluster''
             = Inr (auth_of_type ''OIDC'')"
    by (simp add: listers_of_def)
  have t: "Spec_Type (auth_of_type ''OIDC'') \<noteq> AuthenticationTypeIntegratedOAuth"
    "Spec_Type (auth_of_type ''OIDC'') \<noteq> []"
    by (simp_all add: auth_of_type_def AuthenticationTypeIntegratedOAuth_def)
  show ?thesis
    using disabled_plugins_union [OF a t test_config_disabled] by blast
qed



end
